theory Spec2Isabelle
  imports Complex_Main
begin

section \<open>JavaScript values\<close>

text \<open>
  The filter parser (\<^verbatim>\<open>castValue\<close>, \<^verbatim>\<open>castNumberish\<close>, \<^verbatim>\<open>castArray\<close>,
  \<^verbatim>\<open>decodeValue\<close>, \<^verbatim>\<open>handleArray\<close>, \<^verbatim>\<open>parseAndOrNot\<close>, \<^verbatim>\<open>processQuery\<close>)
  and the resource view (\<^verbatim>\<open>useAPIView\<close>: \<^verbatim>\<open>parseOrderQueryString\<close>, \<^verbatim>\<open>list\<close>,
  \<^verbatim>\<open>retrieve\<close>, \<^verbatim>\<open>update\<close>) are TypeScript. Their values are modelled as follows.

  \<^item> A string is a \<^typ>\<open>string\<close>, one \<^typ>\<open>char\<close> per code unit; code units above 255
    are not represented.
  \<^item> A number is a \<open>jsnum\<close>: \<open>NaN\<close>, an infinity, or a finite double given by its exact
    rational value. The two zeros are not told apart.
  \<^item> A thrown exception is an \<open>error\<close>, and a function that may throw returns
    \<open>error + 'a\<close>, \<open>Inl\<close> carrying what was thrown.
  \<^item> An object is the list of its own properties, \<open>(string \<times> jsval) list\<close>, in the order
    they were created. (JavaScript enumerates properties whose names are array indices
    before the others; no statement below depends on the order of such names.)
\<close>

datatype jsnum = NaN | PosInf | NegInf | Fin rat

datatype error =
    Error string
  | TypeError string
  | SyntaxError string
  | ZodError

datatype jsval =
    VUndefined
  | VNull
  | VBool bool
  | VNum jsnum
  | VBigInt int
  | VStr string
  | VDate int
  | VArr "jsval list"
  | VObj "(string \<times> jsval) list"

type_synonym obj = "(string \<times> jsval) list"

text \<open>\<^verbatim>\<open>typeof v\<close>. A \<^verbatim>\<open>Date\<close>, \<^verbatim>\<open>null\<close>, an array and an object are all \<^verbatim>\<open>'object'\<close>.\<close>

fun typeof :: "jsval \<Rightarrow> string" where
  "typeof VUndefined = ''undefined''"
| "typeof VNull = ''object''"
| "typeof (VBool _) = ''boolean''"
| "typeof (VNum _) = ''number''"
| "typeof (VBigInt _) = ''bigint''"
| "typeof (VStr _) = ''string''"
| "typeof (VDate _) = ''object''"
| "typeof (VArr _) = ''object''"
| "typeof (VObj _) = ''object''"

text \<open>
  Property assignment \<^verbatim>\<open>o[k] = v\<close> (and a later entry of an object literal or spread):
  an existing property keeps its place and takes the new value, a new one goes last.
  \<^verbatim>\<open>delete o[k]\<close> removes the property.
\<close>

fun obj_set :: "string \<Rightarrow> 'v \<Rightarrow> (string \<times> 'v) list \<Rightarrow> (string \<times> 'v) list" where
  "obj_set k v [] = [(k, v)]"
| "obj_set k v ((k', v') # ps) = (if k' = k then (k, v) # ps else (k', v') # obj_set k v ps)"

definition obj_delete :: "string \<Rightarrow> (string \<times> 'v) list \<Rightarrow> (string \<times> 'v) list" where
  "obj_delete k ps = filter (\<lambda>p. fst p \<noteq> k) ps"

definition obj_keys :: "(string \<times> 'v) list \<Rightarrow> string list" where
  "obj_keys ps = map fst ps"

definition hasOwnProperty :: "obj \<Rightarrow> string \<Rightarrow> bool" where
  "hasOwnProperty ps k = (k \<in> set (obj_keys ps))"

text \<open>\<^verbatim>\<open>o[k]\<close>: the value of the property, \<^verbatim>\<open>undefined\<close> when there is none.\<close>

definition obj_get :: "obj \<Rightarrow> string \<Rightarrow> jsval" where
  "obj_get ps k = (case map_of ps k of Some v \<Rightarrow> v | None \<Rightarrow> VUndefined)"

text \<open>\<^verbatim>\<open>{...a, ...b}\<close>: the properties of \<open>b\<close> assigned to a copy of \<open>a\<close>, one by one.\<close>

definition obj_spread :: "obj \<Rightarrow> obj \<Rightarrow> obj" where
  "obj_spread a b = foldl (\<lambda>acc p. obj_set (fst p) (snd p) acc) a b"

text \<open>Sequencing of computations that may throw.\<close>

definition ebind :: "error + 'a \<Rightarrow> ('a \<Rightarrow> error + 'b) \<Rightarrow> error + 'b" where
  "ebind m f = (case m of Inl e \<Rightarrow> Inl e | Inr x \<Rightarrow> f x)"

text \<open>\<^verbatim>\<open>xs.map(f)\<close> for an \<open>f\<close> that may throw: the first exception ends the loop.\<close>

fun emap :: "('a \<Rightarrow> error + 'b) \<Rightarrow> 'a list \<Rightarrow> error + 'b list" where
  "emap f [] = Inr []"
| "emap f (x # xs) =
     (case f x of
        Inl e \<Rightarrow> Inl e
      | Inr y \<Rightarrow> (case emap f xs of Inl e \<Rightarrow> Inl e | Inr ys \<Rightarrow> Inr (y # ys)))"

section \<open>String methods\<close>

definition startsWith :: "string \<Rightarrow> string \<Rightarrow> bool" where
  "startsWith s p = (take (length p) s = p)"

definition removePrefix :: "string \<Rightarrow> string \<Rightarrow> string" where
  "removePrefix s p = drop (length p) s"

fun includes_str :: "string \<Rightarrow> string \<Rightarrow> bool" where
  "includes_str [] sub = (sub = [])"
| "includes_str (c # cs) sub = (startsWith (c # cs) sub \<or> includes_str cs sub)"

text \<open>
  \<^verbatim>\<open>s.split(sep)\<close> for a separator that is not empty: the pieces between the occurrences
  of \<open>sep\<close>, found from the left without overlap. \<open>cur\<close> is the piece being read.
\<close>

function split_from :: "string \<Rightarrow> string \<Rightarrow> string \<Rightarrow> string list" where
  "split_from sep cur [] = [cur]"
| "split_from sep cur (c # cs) =
     (if sep \<noteq> [] \<and> startsWith (c # cs) sep
      then cur # split_from sep [] (drop (length sep) (c # cs))
      else split_from sep (cur @ [c]) cs)"
  by pat_completeness auto
termination
  by (relation "measure (\<lambda>(sep, cur, s). length s)") auto

definition split :: "string \<Rightarrow> string \<Rightarrow> string list" where
  "split s sep = split_from sep [] s"

abbreviation notComma :: "char \<Rightarrow> bool" where
  "notComma \<equiv> (\<lambda>c. c \<noteq> CHR '','')"

text \<open>
  \<^verbatim>\<open>s.substring(a, b)\<close>: both indices are clamped to the string and swapped when they
  come in the wrong order.
\<close>

definition substring :: "string \<Rightarrow> int \<Rightarrow> int \<Rightarrow> string" where
  "substring s a b =
     (let n = int (length s);
          a' = min (max a 0) n;
          b' = min (max b 0) n;
          lo = min a' b';
          hi = max a' b'
      in take (nat (hi - lo)) (drop (nat lo) s))"

definition replaceAll :: "string \<Rightarrow> char \<Rightarrow> char \<Rightarrow> string" where
  "replaceAll s a b = map (\<lambda>c. if c = a then b else c) s"

text \<open>\<^verbatim>\<open>xs.join(sep)\<close> on strings.\<close>

fun join :: "string list \<Rightarrow> string \<Rightarrow> string" where
  "join [] sep = []"
| "join [x] sep = x"
| "join (x # y # ys) sep = x @ sep @ join (y # ys) sep"

text \<open>
  \<^verbatim>\<open>s.toLowerCase()\<close> on the code units represented: \<open>A\<close> to \<open>Z\<close>, and the upper-case
  letters of Latin-1 (192 to 222 without the multiplication sign 215), move up by 32.
\<close>

definition lowerChar :: "char \<Rightarrow> char" where
  "lowerChar c =
     (let n = (of_char c :: int)
      in if (65 \<le> n \<and> n \<le> 90) \<or> (192 \<le> n \<and> n \<le> 222 \<and> n \<noteq> 215)
         then char_of (n + 32) else c)"

definition toLowerCase :: "string \<Rightarrow> string" where
  "toLowerCase s = map lowerChar s"

section \<open>Numbers: \<^verbatim>\<open>Number(string)\<close>, \<^verbatim>\<open>BigInt(string)\<close>, \<^verbatim>\<open>Number.isSafeInteger\<close>\<close>

text \<open>
  The value of a finite double is kept as a rational. \<open>toDouble\<close> is the rounding of
  ECMAScript's ``Number value for \<open>x\<close>'': to the nearest double, ties to the even
  significand, with 53 bits above \<open>2\<^sup>-\<^sup>1\<^sup>0\<^sup>7\<^sup>4\<close> and an infinity when the rounded value
  reaches \<open>2\<^sup>1\<^sup>0\<^sup>2\<^sup>4\<close>. A safe integer is an integer of magnitude at most
  \<open>2\<^sup>5\<^sup>3 - 1 = 9007199254740991\<close>.
\<close>

definition pow2 :: "int \<Rightarrow> rat" where
  "pow2 k = (if 0 \<le> k then 2 ^ nat k else 1 / 2 ^ nat (- k))"

function bits :: "int \<Rightarrow> int" where
  "bits n = (if n \<le> 0 then 0 else 1 + bits (n div 2))"
  by pat_completeness auto
termination
  by (relation "measure nat") auto

declare bits.simps [simp del]

text \<open>
  \<open>floorLog2 a\<close> is the \<open>e\<close> with \<open>2\<^sup>e \<le> a < 2\<^sup>e\<^sup>+\<^sup>1\<close>, for \<open>a > 0\<close>; for \<open>a = 0\<close> it is
  \<open>-2\<close>. \<open>bits n\<close> is the number of binary digits of \<open>n\<close>.
\<close>

definition floorLog2 :: "rat \<Rightarrow> int" where
  "floorLog2 a =
     (let (n, d) = quotient_of a;
          k = bits n - bits d
      in if pow2 k \<le> a then k else k - 1)"

definition roundHalfEven :: "rat \<Rightarrow> int" where
  "roundHalfEven x =
     (let f = \<lfloor>x\<rfloor>; d = x - of_int f
      in if d < 1 / 2 then f
         else if 1 / 2 < d then f + 1
         else if even f then f else f + 1)"

definition toDouble :: "rat \<Rightarrow> jsnum" where
  "toDouble q =
     (if q = 0 then Fin 0
      else
        let a = \<bar>q\<bar>;
            p = max (floorLog2 a - 52) (- 1074);
            r = of_int (roundHalfEven (a / pow2 p)) * pow2 p
        in if 1024 \<le> floorLog2 r then (if 0 < q then PosInf else NegInf)
           else Fin (if 0 < q then r else - r))"

definition isNaN :: "jsnum \<Rightarrow> bool" where
  "isNaN n = (n = NaN)"

definition isSafeInteger :: "jsnum \<Rightarrow> bool" where
  "isSafeInteger n =
     (case n of
        Fin q \<Rightarrow> of_int \<lfloor>q\<rfloor> = q \<and> \<bar>q\<bar> \<le> 9007199254740991
      | _ \<Rightarrow> False)"

text \<open>
  White space that \<^verbatim>\<open>Number\<close> and \<^verbatim>\<open>BigInt\<close> strip from both ends of a string: tab,
  line feed, vertical tab, form feed, carriage return, space and no-break space.
\<close>

definition isStrWhiteSpace :: "char \<Rightarrow> bool" where
  "isStrWhiteSpace c = ((of_char c :: int) \<in> {9, 10, 11, 12, 13, 32, 160})"

definition trimWS :: "string \<Rightarrow> string" where
  "trimWS s = rev (dropWhile isStrWhiteSpace (rev (dropWhile isStrWhiteSpace s)))"

definition isDecimalDigit :: "char \<Rightarrow> bool" where
  "isDecimalDigit c = (c \<in> set ''0123456789'')"

text \<open>The value of a digit in a base up to 16; \<open>None\<close> when it is not one.\<close>

definition digitIn :: "int \<Rightarrow> char \<Rightarrow> int option" where
  "digitIn base c =
     (let n = (of_char c :: int);
          v = (if 48 \<le> n \<and> n \<le> 57 then Some (n - 48)
               else if 97 \<le> n \<and> n \<le> 102 then Some (n - 87)
               else if 65 \<le> n \<and> n \<le> 70 then Some (n - 55)
               else None)
      in case v of None \<Rightarrow> None | Some d \<Rightarrow> if d < base then Some d else None)"

definition allDigitsIn :: "int \<Rightarrow> string \<Rightarrow> bool" where
  "allDigitsIn base ds = (ds \<noteq> [] \<and> list_all (\<lambda>c. digitIn base c \<noteq> None) ds)"

definition digitsValue :: "int \<Rightarrow> string \<Rightarrow> int" where
  "digitsValue base ds = foldl (\<lambda>a c. a * base + (case digitIn base c of Some d \<Rightarrow> d | None \<Rightarrow> 0)) 0 ds"

text \<open>
  \<open>0x\<close>, \<open>0o\<close> and \<open>0b\<close> literals (either case of the letter), which take no sign:
  the outer \<open>None\<close> says the string has no such prefix, the inner one that the digits
  after it are missing or wrong.
\<close>

definition nonDecimalLiteral :: "string \<Rightarrow> int option option" where
  "nonDecimalLiteral t =
     (case t of
        c0 # c1 # ds \<Rightarrow>
          if c0 = CHR ''0'' \<and> c1 \<in> set ''xXoObB''
          then (let base = (if c1 \<in> set ''xX'' then 16 else if c1 \<in> set ''oO'' then 8 else 2)
                in Some (if allDigitsIn base ds then Some (digitsValue base ds) else None))
          else None
      | _ \<Rightarrow> None)"

text \<open>
  The exponent part of a decimal literal: nothing, or \<open>e\<close>/\<open>E\<close>, an optional sign and
  at least one digit.
\<close>

definition exponentPart :: "string \<Rightarrow> int option" where
  "exponentPart r =
     (case r of
        [] \<Rightarrow> Some 0
      | c # ds \<Rightarrow>
          if c \<in> set ''eE'' then
            (case ds of
               [] \<Rightarrow> None
             | s # ds' \<Rightarrow>
                 if s = CHR ''+'' then (if allDigitsIn 10 ds' then Some (digitsValue 10 ds') else None)
                 else if s = CHR ''-'' then (if allDigitsIn 10 ds' then Some (- digitsValue 10 ds') else None)
                 else (if allDigitsIn 10 ds then Some (digitsValue 10 ds) else None))
          else None)"

definition pow10 :: "int \<Rightarrow> rat" where
  "pow10 k = (if 0 \<le> k then 10 ^ nat k else 1 / 10 ^ nat (- k))"

text \<open>
  An unsigned decimal literal: \<open>Infinity\<close>, or digits with an optional fraction and an
  optional exponent, with a digit before or after the point. The result is the exact
  value, \<open>None\<close> for \<open>Infinity\<close>; the outer \<open>None\<close> is a string that is no literal.
\<close>

definition unsignedDecimal :: "string \<Rightarrow> rat option option" where
  "unsignedDecimal u =
     (if u = ''Infinity'' then Some None
      else
        let ip = takeWhile isDecimalDigit u;
            r1 = dropWhile isDecimalDigit u;
            fp = (case r1 of c # t \<Rightarrow> if c = CHR ''.'' then takeWhile isDecimalDigit t else [] | [] \<Rightarrow> []);
            r2 = (case r1 of c # t \<Rightarrow> if c = CHR ''.'' then dropWhile isDecimalDigit t else r1 | [] \<Rightarrow> [])
        in if ip = [] \<and> fp = [] then None
           else (case exponentPart r2 of
                   None \<Rightarrow> None
                 | Some e \<Rightarrow>
                     Some (Some ((of_int (digitsValue 10 ip)
                                  + of_int (digitsValue 10 fp) / 10 ^ length fp) * pow10 e))))"

text \<open>\<^verbatim>\<open>Number(s)\<close> for a string \<open>s\<close>.\<close>

definition Number :: "string \<Rightarrow> jsnum" where
  "Number s =
     (let t = trimWS s
      in if t = [] then Fin 0
         else case nonDecimalLiteral t of
                Some (Some n) \<Rightarrow> toDouble (of_int n)
              | Some None \<Rightarrow> NaN
              | None \<Rightarrow>
                  (case t of
                     c # u \<Rightarrow>
                       if c = CHR ''-'' then
                         (case unsignedDecimal u of
                            None \<Rightarrow> NaN
                          | Some None \<Rightarrow> NegInf
                          | Some (Some q) \<Rightarrow> toDouble (- q))
                       else
                         (case unsignedDecimal (if c = CHR ''+'' then u else t) of
                            None \<Rightarrow> NaN
                          | Some None \<Rightarrow> PosInf
                          | Some (Some q) \<Rightarrow> toDouble q)
                   | [] \<Rightarrow> Fin 0))"

text \<open>
  \<^verbatim>\<open>BigInt(s)\<close> for a string \<open>s\<close>: an optionally signed run of decimal digits, or an
  unsigned \<open>0x\<close>, \<open>0o\<close> or \<open>0b\<close> literal, between optional white space; the empty string
  is zero. Anything else throws a \<^verbatim>\<open>SyntaxError\<close> (the message is the runtime's, here
  V8's).
\<close>

definition StringToBigInt :: "string \<Rightarrow> int option" where
  "StringToBigInt s =
     (let t = trimWS s
      in if t = [] then Some 0
         else case nonDecimalLiteral t of
                Some (Some n) \<Rightarrow> Some n
              | Some None \<Rightarrow> None
              | None \<Rightarrow>
                  (case t of
                     c # u \<Rightarrow>
                       if c = CHR ''-'' then (if allDigitsIn 10 u then Some (- digitsValue 10 u) else None)
                       else if c = CHR ''+'' then (if allDigitsIn 10 u then Some (digitsValue 10 u) else None)
                       else (if allDigitsIn 10 t then Some (digitsValue 10 t) else None)
                   | [] \<Rightarrow> Some 0))"

definition BigInt :: "string \<Rightarrow> error + jsval" where
  "BigInt s =
     (case StringToBigInt s of
        None \<Rightarrow> Inl (SyntaxError (''Cannot convert '' @ s @ '' to a BigInt''))
      | Some i \<Rightarrow> Inr (VBigInt i))"

section \<open>Dates\<close>

text \<open>
  \<^verbatim>\<open>new Date(s)\<close> holds the time value \<^verbatim>\<open>Date.parse(s)\<close>, in milliseconds since the epoch,
  and \<^verbatim>\<open>isNaN(d.getTime())\<close> says that the string was not recognised. Which strings a
  runtime recognises beyond the ECMAScript date-time format is left to the runtime, so
  the functions below take the parser as their first argument \<open>dp\<close>, \<open>None\<close> being the
  invalid date, and the theorems about them hold for every parser.

  \<open>Date_parse_ymd\<close> is one such parser, for the statements that are evaluated on given
  strings: it reads the date-only form \<open>YYYY-MM-DD\<close> of that format, as midnight UTC,
  and nothing else.
\<close>

type_synonym date_parser = "string \<Rightarrow> int option"

definition isLeapYear :: "int \<Rightarrow> bool" where
  "isLeapYear y = (y mod 4 = 0 \<and> (y mod 100 \<noteq> 0 \<or> y mod 400 = 0))"

definition daysInMonth :: "int \<Rightarrow> int \<Rightarrow> int" where
  "daysInMonth y m =
     (if m = 2 then (if isLeapYear y then 29 else 28)
      else if m \<in> {4, 6, 9, 11} then 30 else 31)"

definition daysFromCivil :: "int \<Rightarrow> int \<Rightarrow> int \<Rightarrow> int" where
  "daysFromCivil y m d =
     (let y' = (if m \<le> 2 then y - 1 else y);
          era = y' div 400;
          yoe = y' - era * 400;
          doy = (153 * (if 2 < m then m - 3 else m + 9) + 2) div 5 + d - 1;
          doe = yoe * 365 + yoe div 4 - yoe div 100 + doy
      in era * 146097 + doe - 719468)"

definition Date_parse_ymd :: date_parser where
  "Date_parse_ymd s =
     (if length s = 10 \<and> s ! 4 = CHR ''-'' \<and> s ! 7 = CHR ''-''
         \<and> list_all isDecimalDigit (take 4 s)
         \<and> list_all isDecimalDigit (take 2 (drop 5 s))
         \<and> list_all isDecimalDigit (drop 8 s)
      then
        let y = digitsValue 10 (take 4 s);
            m = digitsValue 10 (take 2 (drop 5 s));
            d = digitsValue 10 (drop 8 s)
        in if 1 \<le> m \<and> m \<le> 12 \<and> 1 \<le> d \<and> d \<le> daysInMonth y m
           then Some (daysFromCivil y m d * 86400000) else None
      else None)"

section \<open>The value coercer\<close>

text \<open>\<^verbatim>\<open>castValue\<close>.\<close>

definition castValue :: "date_parser \<Rightarrow> string \<Rightarrow> error + jsval" where
  "castValue dp v =
     (if v = [] then Inr (VStr [])
      else
        let logwerCaseValue = toLowerCase v
        in if logwerCaseValue = ''true'' then Inr (VBool True)
           else if logwerCaseValue = ''false'' then Inr (VBool False)
           else if logwerCaseValue = ''null'' then Inr VNull
           else
             let numericValue = Number v
             in if \<not> isNaN numericValue then
                  (if isSafeInteger numericValue then Inr (VNum numericValue) else BigInt v)
                else
                  (case dp v of
                     Some t \<Rightarrow> Inr (VDate t)
                   | None \<Rightarrow> Inr (VStr v)))"

text \<open>\<^verbatim>\<open>castNumberish\<close>.\<close>

definition castNumberish :: "date_parser \<Rightarrow> string \<Rightarrow> error + jsval" where
  "castNumberish dp v =
     (let numericValue = Number v
      in if \<not> isNaN numericValue then
           (if isSafeInteger numericValue then Inr (VNum numericValue) else BigInt v)
         else
           (case dp v of
              Some t \<Rightarrow> Inr (VDate t)
            | None \<Rightarrow> Inl (Error ''Not a numberish value'')))"

text \<open>
  \<^verbatim>\<open>castArray\<close>. \<^verbatim>\<open>arr[0]\<close> of an empty array is \<^verbatim>\<open>undefined\<close>, and \<^verbatim>\<open>every\<close> holds of it.
\<close>

definition castArray :: "date_parser \<Rightarrow> string list \<Rightarrow> error + jsval list" where
  "castArray dp vs =
     ebind (emap (castValue dp) vs) (\<lambda>arr.
       let firstElementType = typeof (case arr of [] \<Rightarrow> VUndefined | a # _ \<Rightarrow> a)
       in if list_all (\<lambda>v. typeof v = firstElementType) arr then Inr arr
          else Inl (Error ''Not an array of the same type''))"

section \<open>The operator decoder\<close>

text \<open>
  \<^verbatim>\<open>const [start, end] = xs\<close>: the first two elements, \<^verbatim>\<open>undefined\<close> where there is none.
  Here \<open>xs\<close> comes from splitting a string that contains \<open>..\<close> at \<open>..\<close>, so it has two.
\<close>

definition firstTwo :: "string list \<Rightarrow> string list" where
  "firstTwo xs = take 2 xs"

text \<open>\<^verbatim>\<open>decodeValue\<close>, branch by branch in the order of the source.\<close>

definition decodeValue :: "date_parser \<Rightarrow> string \<Rightarrow> error + obj" where
  "decodeValue dp v =
     (let numericValue = Number v
      in if v = [] then Inr [(''$null'', VBool True)]
         else if v = ''!'' then Inr [(''$null'', VBool False)]
         else if \<not> isNaN numericValue then Inr [(''$eq'', VNum numericValue)]
         else if startsWith v ''>='' then
           ebind (castNumberish dp (removePrefix v ''>='')) (\<lambda>x. Inr [(''$gte'', x)])
         else if startsWith v ''<='' then
           ebind (castNumberish dp (removePrefix v ''<='')) (\<lambda>x. Inr [(''$lte'', x)])
         else if startsWith v ''>'' then
           ebind (castNumberish dp (removePrefix v ''>'')) (\<lambda>x. Inr [(''$gt'', x)])
         else if startsWith v ''<'' then
           ebind (castNumberish dp (removePrefix v ''<'')) (\<lambda>x. Inr [(''$lt'', x)])
         else if includes_str v ''..'' then
           (let startEnd = (if startsWith v ''!''
                            then firstTwo (split (removePrefix v ''!'') ''..'')
                            else firstTwo (split v ''..''))
            in if startsWith v ''!''
               then ebind (castArray dp startEnd) (\<lambda>xs. Inr [(''$nbetween'', VArr xs)])
               else ebind (castArray dp startEnd) (\<lambda>xs. Inr [(''$between'', VArr xs)]))
         else if includes_str v '','' then
           (if startsWith v ''@>'' then
              ebind (emap (castValue dp) (split (removePrefix v ''@>'') '','')) (\<lambda>xs.
                Inr [(''$contained'', VArr xs)])
            else if startsWith v ''@'' then Inr [(''$contains'', VStr (removePrefix v ''@''))]
            else if startsWith v ''!'' then
              ebind (castArray dp (split (removePrefix v ''!'') '','')) (\<lambda>xs. Inr [(''$nin'', VArr xs)])
            else ebind (castArray dp (split v '','')) (\<lambda>xs. Inr [(''$in'', VArr xs)]))
         else if startsWith v ''~'' then Inr [(''$like'', VStr (removePrefix v ''~''))]
         else if startsWith v ''!~'' then Inr [(''$nlike'', VStr (removePrefix v ''!~''))]
         else if startsWith v ''~*'' then Inr [(''$ilike'', VStr (removePrefix v ''~*''))]
         else if startsWith v ''!~*'' then Inr [(''$nilike'', VStr (removePrefix v ''!~*''))]
         else if startsWith v ''!'' then Inr [(''$ne'', VStr (removePrefix v ''!''))]
         else Inr [(''$eq'', VStr v)])"

text \<open>
  \<^verbatim>\<open>handleArray\<close>, the body of its \<^verbatim>\<open>forEach\<close> first. The elements are strings
  (\<^verbatim>\<open>values: string[]\<close>), so the branch for an element that is an object does not
  appear. \<open>queryObject\<close> is the object built so far.
\<close>

definition handleArray_step :: "date_parser \<Rightarrow> obj \<Rightarrow> string \<Rightarrow> error + obj" where
  "handleArray_step dp queryObject v =
     ebind (decodeValue dp v) (\<lambda>decodedValue.
       case obj_keys decodedValue of
         [k] \<Rightarrow>
           if hasOwnProperty queryObject k
           then Inr (obj_delete k
                  (obj_set ''$and'' (VArr [VObj [(k, obj_get queryObject k)], VObj decodedValue])
                     queryObject))
           else Inr (obj_spread queryObject decodedValue)
       | _ \<Rightarrow> Inl (Error ''Not implemented''))"

fun handleArray_loop :: "date_parser \<Rightarrow> obj \<Rightarrow> string list \<Rightarrow> error + obj" where
  "handleArray_loop dp queryObject [] = Inr queryObject"
| "handleArray_loop dp queryObject (v # vs) =
     (case handleArray_step dp queryObject v of
        Inl e \<Rightarrow> Inl e
      | Inr queryObject' \<Rightarrow> handleArray_loop dp queryObject' vs)"

definition handleArray :: "date_parser \<Rightarrow> string list \<Rightarrow> error + obj" where
  "handleArray dp vs = handleArray_loop dp [] vs"

section \<open>The earlier copy of the decoder\<close>

text \<open>
  The repository holds a second, earlier copy of the filter parser (around
  \<^verbatim>\<open>useRestFilter\<close>). Its \<^verbatim>\<open>decodeValue\<close> has the same branches in the same order, but
  coerces nothing: a comparison takes \<^verbatim>\<open>Number\<close> of its operand, and the parts of a
  range or of a list stay strings; it never throws. Its \<^verbatim>\<open>handleArray\<close> is the same text
  as the later one.
\<close>

definition decodeValue_002 :: "string \<Rightarrow> obj" where
  "decodeValue_002 v =
     (let numericValue = Number v
      in if v = [] then [(''$null'', VBool True)]
         else if v = ''!'' then [(''$null'', VBool False)]
         else if \<not> isNaN numericValue then [(''$eq'', VNum numericValue)]
         else if startsWith v ''>='' then [(''$gte'', VNum (Number (removePrefix v ''>='')))]
         else if startsWith v ''<='' then [(''$lte'', VNum (Number (removePrefix v ''<='')))]
         else if startsWith v ''>'' then [(''$gt'', VNum (Number (removePrefix v ''>'')))]
         else if startsWith v ''<'' then [(''$lt'', VNum (Number (removePrefix v ''<'')))]
         else if includes_str v ''..'' then
           (let startEnd = (if startsWith v ''!''
                            then firstTwo (split (removePrefix v ''!'') ''..'')
                            else firstTwo (split v ''..''))
            in if startsWith v ''!''
               then [(''$nbetween'', VArr (map VStr startEnd))]
               else [(''$between'', VArr (map VStr startEnd))])
         else if includes_str v '','' then
           (if startsWith v ''@>'' then
              [(''$contained'', VArr (map VStr (split (removePrefix v ''@>'') '','')))]
            else if startsWith v ''@'' then [(''$contains'', VStr (removePrefix v ''@''))]
            else if startsWith v ''!'' then
              [(''$nin'', VArr (map VStr (split (removePrefix v ''!'') '','')))]
            else [(''$in'', VArr (map VStr (split v '','')))])
         else if startsWith v ''~'' then [(''$like'', VStr (removePrefix v ''~''))]
         else if startsWith v ''!~'' then [(''$nlike'', VStr (removePrefix v ''!~''))]
         else if startsWith v ''~*'' then [(''$ilike'', VStr (removePrefix v ''~*''))]
         else if startsWith v ''!~*'' then [(''$nilike'', VStr (removePrefix v ''!~*''))]
         else if startsWith v ''!'' then [(''$ne'', VStr (removePrefix v ''!''))]
         else [(''$eq'', VStr v)])"

definition handleArray_step_002 :: "obj \<Rightarrow> string \<Rightarrow> error + obj" where
  "handleArray_step_002 queryObject v =
     (let decodedValue = decodeValue_002 v
      in case obj_keys decodedValue of
           [k] \<Rightarrow>
             if hasOwnProperty queryObject k
             then Inr (obj_delete k
                    (obj_set ''$and'' (VArr [VObj [(k, obj_get queryObject k)], VObj decodedValue])
                       queryObject))
             else Inr (obj_spread queryObject decodedValue)
         | _ \<Rightarrow> Inl (Error ''Not implemented''))"

fun handleArray_loop_002 :: "obj \<Rightarrow> string list \<Rightarrow> error + obj" where
  "handleArray_loop_002 queryObject [] = Inr queryObject"
| "handleArray_loop_002 queryObject (v # vs) =
     (case handleArray_step_002 queryObject v of
        Inl e \<Rightarrow> Inl e
      | Inr queryObject' \<Rightarrow> handleArray_loop_002 queryObject' vs)"

definition handleArray_002 :: "string list \<Rightarrow> error + obj" where
  "handleArray_002 vs = handleArray_loop_002 [] vs"

section \<open>The filter expression parser\<close>

text \<open>
  A parsed query maps each key to a string, or to the array of its values when the key
  occurs more than once; that is what \<^verbatim>\<open>getQuery\<close> of the library \<^verbatim>\<open>ufo\<close> returns. The
  library is not part of the repository: \<^verbatim>\<open>parseAndOrNot\<close> and \<^verbatim>\<open>processQuery\<close> take it
  as the argument \<open>gq\<close>. A query is the list of its entries in the order of
  \<^verbatim>\<open>Object.entries\<close>, with no key twice.
\<close>

datatype qvalue = QStr string | QArr "string list"

type_synonym query = "(string \<times> qvalue) list"

type_synonym query_parser = "string \<Rightarrow> query"

text \<open>
  \<^verbatim>\<open>processQuery\<close> calls the query parser for the keys \<open>and\<close>, \<open>or\<close> and \<open>not\<close> only;
  \<open>emptyQuery\<close> stands in for it where a query without these keys is evaluated.
\<close>

definition emptyQuery :: query_parser where
  "emptyQuery s = []"

text \<open>
  The loop that \<^verbatim>\<open>parseAndOrNot\<close> and \<^verbatim>\<open>processQuery\<close> both run over the entries:
  a string goes to \<^verbatim>\<open>decodeValue\<close>, an array to \<^verbatim>\<open>handleArray\<close>, and the result is
  stored under the key.
\<close>

definition decodeParam :: "date_parser \<Rightarrow> qvalue \<Rightarrow> error + obj" where
  "decodeParam dp val = (case val of QStr s \<Rightarrow> decodeValue dp s | QArr vs \<Rightarrow> handleArray dp vs)"

fun decodeEntries :: "date_parser \<Rightarrow> obj \<Rightarrow> query \<Rightarrow> error + obj" where
  "decodeEntries dp acc [] = Inr acc"
| "decodeEntries dp acc ((key, val) # rest) =
     (case decodeParam dp val of
        Inl e \<Rightarrow> Inl e
      | Inr d \<Rightarrow> decodeEntries dp (obj_set key (VObj d) acc) rest)"

text \<open>
  \<^verbatim>\<open>parseAndOrNot\<close>. Its argument is typed as a string; when the key was given twice it
  is an array, which has no \<^verbatim>\<open>substring\<close> method.
\<close>

definition parseAndOrNot :: "date_parser \<Rightarrow> query_parser \<Rightarrow> qvalue \<Rightarrow> error + obj" where
  "parseAndOrNot dp gq val =
     (case val of
        QArr _ \<Rightarrow> Inl (TypeError ''value.substring is not a function'')
      | QStr s \<Rightarrow>
          let cleanValue = substring s 1 (int (length s) - 1);
              tokens = replaceAll cleanValue (CHR ''|'') (CHR ''&'')
          in decodeEntries dp [] (gq tokens))"

text \<open>Truthiness of a query value that may be absent, and \<^verbatim>\<open>Number\<close> of one.\<close>

definition truthy :: "qvalue option \<Rightarrow> bool" where
  "truthy v = (case v of None \<Rightarrow> False | Some (QStr s) \<Rightarrow> s \<noteq> [] | Some (QArr _) \<Rightarrow> True)"

definition Number_q :: "qvalue \<Rightarrow> jsnum" where
  "Number_q v = (case v of QStr s \<Rightarrow> Number s | QArr xs \<Rightarrow> Number (join xs '',''))"

text \<open>
  The object that \<^verbatim>\<open>processQuery\<close> returns, with its properties \<^verbatim>\<open>filter\<close>, \<^verbatim>\<open>page\<close>,
  \<^verbatim>\<open>size\<close>, \<^verbatim>\<open>sort\<close> and \<^verbatim>\<open>searchQuery\<close>.
\<close>

record processed =
  filter_p :: obj
  page_p :: jsnum
  size_p :: jsnum
  sort_p :: qvalue
  searchQuery_p :: qvalue

definition reservedKeys :: "string list" where
  "reservedKeys = [''and'', ''or'', ''not'', ''page'', ''size'', ''sort'', ''q'']"

text \<open>\<^verbatim>\<open>filter.$and = parseAndOrNot(and)\<close> and its two siblings, when the key is truthy.\<close>

definition attachGroup ::
  "date_parser \<Rightarrow> query_parser \<Rightarrow> query \<Rightarrow> string \<Rightarrow> string \<Rightarrow> obj \<Rightarrow> error + obj" where
  "attachGroup dp gq q key name flt =
     (if truthy (map_of q key)
      then (case map_of q key of
              Some val \<Rightarrow> ebind (parseAndOrNot dp gq val) (\<lambda>g. Inr (obj_set name (VObj g) flt))
            | None \<Rightarrow> Inr flt)
      else Inr flt)"

text \<open>The errors that coercing and decoding a value can throw.\<close>

definition decodeError :: "error \<Rightarrow> bool" where
  "decodeError e =
     (case e of
        Error m \<Rightarrow> m = ''Not a numberish value'' \<or> m = ''Not an array of the same type''
      | SyntaxError m \<Rightarrow> True
      | _ \<Rightarrow> False)"

text \<open>\<^verbatim>\<open>processQuery\<close>.\<close>

definition processQuery :: "date_parser \<Rightarrow> query_parser \<Rightarrow> query \<Rightarrow> error + processed" where
  "processQuery dp gq q =
     (let restQ = filter (\<lambda>e. fst e \<notin> set reservedKeys) q
      in ebind (decodeEntries dp [] restQ) (\<lambda>f0.
         ebind (attachGroup dp gq q ''and'' ''$and'' f0) (\<lambda>f1.
         ebind (attachGroup dp gq q ''or'' ''$or'' f1) (\<lambda>f2.
         ebind (attachGroup dp gq q ''not'' ''$not'' f2) (\<lambda>f3.
           Inr \<lparr> filter_p = f3,
                 page_p = (if truthy (map_of q ''page'') then Number_q (the (map_of q ''page'')) else Fin 1),
                 size_p = (if truthy (map_of q ''size'') then Number_q (the (map_of q ''size'')) else Fin 10),
                 sort_p = (if truthy (map_of q ''sort'') then the (map_of q ''sort'') else QStr ''id''),
                 searchQuery_p = (if truthy (map_of q ''q'') then the (map_of q ''q'') else QStr []) \<rparr>)))))"

section \<open>Number arithmetic\<close>

text \<open>
  \<^verbatim>\<open>a - b\<close>, \<^verbatim>\<open>a * b\<close>, \<^verbatim>\<open>a / b\<close> and \<^verbatim>\<open>Math.ceil\<close> on numbers: the exact result rounded
  to a double, with the IEEE rules for \<open>NaN\<close> and the infinities. A zero divisor counts
  as \<open>+0\<close>.
\<close>

definition js_sub :: "jsnum \<Rightarrow> jsnum \<Rightarrow> jsnum" where
  "js_sub a b =
     (case (a, b) of
        (NaN, _) \<Rightarrow> NaN
      | (_, NaN) \<Rightarrow> NaN
      | (PosInf, PosInf) \<Rightarrow> NaN
      | (NegInf, NegInf) \<Rightarrow> NaN
      | (PosInf, _) \<Rightarrow> PosInf
      | (NegInf, _) \<Rightarrow> NegInf
      | (Fin x, PosInf) \<Rightarrow> NegInf
      | (Fin x, NegInf) \<Rightarrow> PosInf
      | (Fin x, Fin y) \<Rightarrow> toDouble (x - y))"

definition js_sign :: "jsnum \<Rightarrow> int" where
  "js_sign a =
     (case a of
        NaN \<Rightarrow> 0
      | PosInf \<Rightarrow> 1
      | NegInf \<Rightarrow> - 1
      | Fin x \<Rightarrow> if x < 0 then - 1 else if x = 0 then 0 else 1)"

definition js_inf :: "int \<Rightarrow> jsnum" where
  "js_inf sg = (if sg = 0 then NaN else if 0 < sg then PosInf else NegInf)"

definition js_mul :: "jsnum \<Rightarrow> jsnum \<Rightarrow> jsnum" where
  "js_mul a b =
     (case (a, b) of
        (NaN, _) \<Rightarrow> NaN
      | (_, NaN) \<Rightarrow> NaN
      | (Fin x, Fin y) \<Rightarrow> toDouble (x * y)
      | _ \<Rightarrow> js_inf (js_sign a * js_sign b))"

definition js_div :: "jsnum \<Rightarrow> jsnum \<Rightarrow> jsnum" where
  "js_div a b =
     (case (a, b) of
        (NaN, _) \<Rightarrow> NaN
      | (_, NaN) \<Rightarrow> NaN
      | (Fin x, Fin y) \<Rightarrow> if y = 0 then js_inf (js_sign a) else toDouble (x / y)
      | (Fin x, _) \<Rightarrow> Fin 0
      | (_, Fin y) \<Rightarrow> js_inf (js_sign a * (if y < 0 then - 1 else 1))
      | _ \<Rightarrow> NaN)"

definition Math_ceil :: "jsnum \<Rightarrow> jsnum" where
  "Math_ceil a = (case a of Fin x \<Rightarrow> Fin (of_int \<lceil>x\<rceil>) | _ \<Rightarrow> a)"

section \<open>The ordering parser\<close>

datatype direction = asc | desc

text \<open>
  \<^verbatim>\<open>parseOrderQueryString\<close> checks the string against the pattern
  \<^verbatim>\<open>^([-]?(F)(?:,[-]?(F))*)?$\<close>, where \<open>F\<close> is \<^verbatim>\<open>validFields.join('|')\<close>. The field names are
  pasted into the pattern as they are; the model reads each name as a literal, which
  is what the pattern means for a name made of letters, digits and underscores. A
  \<open>plainName\<close> is such a name that does not start with a digit, so that it is no
  array index either and the record of directions keeps the order in which its fields
  were set. With no field at all, \<open>F\<close> is empty and the group matches the empty string.

  \<open>matchItem\<close> gives every way of matching \<^verbatim>\<open>[-]?(F)\<close> at the start of a string, as the
  list of what is left of the string; \<open>matchTail\<close> is \<^verbatim>\<open>(?:,[-]?(F))*$\<close>.
\<close>

text \<open>A letter or an underscore.\<close>

definition isNameStart :: "char \<Rightarrow> bool" where
  "isNameStart c = (let n = (of_char c :: int) in (65 \<le> n \<and> n \<le> 90) \<or> (97 \<le> n \<and> n \<le> 122) \<or> n = 95)"

definition plainName :: "string \<Rightarrow> bool" where
  "plainName f =
     (case f of
        [] \<Rightarrow> False
      | c # cs \<Rightarrow> isNameStart c \<and> list_all (\<lambda>c. isNameStart c \<or> isDecimalDigit c) cs)"

definition alternatives :: "string list \<Rightarrow> string list" where
  "alternatives validFields = (if validFields = [] then [Nil] else validFields)"

definition matchField :: "string list \<Rightarrow> string \<Rightarrow> string list" where
  "matchField validFields s =
     map (removePrefix s) (filter (startsWith s) (alternatives validFields))"

definition matchItem :: "string list \<Rightarrow> string \<Rightarrow> string list" where
  "matchItem validFields s =
     (case s of
        c # r \<Rightarrow> if c = CHR ''-'' then matchField validFields r else []
      | [] \<Rightarrow> [])
     @ matchField validFields s"

function matchTail :: "string list \<Rightarrow> string \<Rightarrow> bool" where
  "matchTail validFields [] = True"
| "matchTail validFields (c # r) =
     (c = CHR '','' \<and> list_ex (matchTail validFields) (matchItem validFields r))"
  by pat_completeness auto
termination
proof (relation "measure (\<lambda>(validFields, s). length s)")
  show "wf (measure (\<lambda>(validFields, s). length s))"
    by simp
next
  fix validFields :: "string list" and c :: char and r x :: string
  assume "x \<in> set (matchItem validFields r)"
  then have "length x \<le> length r"
    by (auto simp: matchItem_def matchField_def removePrefix_def split: list.splits if_splits)
  then show "((validFields, x), (validFields, c # r)) \<in> measure (\<lambda>(validFields, s). length s)"
    by simp
qed

definition orderRegexTest :: "string list \<Rightarrow> string \<Rightarrow> bool" where
  "orderRegexTest validFields s =
     (s = [] \<or> list_ex (matchTail validFields) (matchItem validFields s))"

text \<open>
  One part of the split string: \<^verbatim>\<open>part.replace(/^[-]/, '')\<close> and the direction that
  a leading \<open>-\<close> gives.
\<close>

definition orderPart :: "string \<Rightarrow> string \<times> direction" where
  "orderPart part =
     (let cleanedPart = (case part of c # r \<Rightarrow> if c = CHR ''-'' then r else part | [] \<Rightarrow> part);
          direction = (if startsWith part ''-'' then desc else asc)
      in (cleanedPart, direction))"

text \<open>A part is allowed when its field, the part without a leading \<open>-\<close>, is a valid field.\<close>

definition allowedPart :: "string list \<Rightarrow> string \<Rightarrow> bool" where
  "allowedPart validFields part = (fst (orderPart part) \<in> set validFields)"

text \<open>
  \<^verbatim>\<open>parseOrderQueryString\<close>. The argument is a query value or a configured string, or
  \<^verbatim>\<open>undefined\<close>, which \<^verbatim>\<open>??\<close> turns into the empty string; \<^verbatim>\<open>z.string()\<close> rejects an
  array. The result is the record of directions, \<open>None\<close> for \<^verbatim>\<open>undefined\<close>.
\<close>

definition parseOrderQueryString ::
  "qvalue option \<Rightarrow> string list \<Rightarrow> error + (string \<times> direction) list option" where
  "parseOrderQueryString queryString validFields =
     (case (case queryString of None \<Rightarrow> Some [] | Some (QStr s) \<Rightarrow> Some s | Some (QArr _) \<Rightarrow> None) of
        None \<Rightarrow> Inl ZodError
      | Some orderQueryString \<Rightarrow>
          if orderRegexTest validFields orderQueryString then
            (let order = foldl (\<lambda>acc p. obj_set (fst p) (snd p) acc) []
                              (map orderPart (split orderQueryString '',''))
             in Inr (if 0 < length (obj_keys order) then Some order else None))
          else Inl ZodError)"

section \<open>The resource view\<close>

text \<open>
  \<^verbatim>\<open>useAPIView\<close> works on three collaborators that are not part of the repository; each
  is a parameter of the model.

  \<^item> The request (\<^verbatim>\<open>H3Event\<close>): its parsed query (\<^verbatim>\<open>getQuery\<close>), its router parameters
    (\<^verbatim>\<open>getRouterParam\<close>) and its body (\<^verbatim>\<open>readBody\<close>).
  \<^item> The schemas (\<^verbatim>\<open>ZodObject\<close>): the names of the \<^verbatim>\<open>shape\<close> and the parse function on
    objects, \<open>None\<close> when validation fails. \<open>zod_parse\<close> adds what every object schema
    does with a value that is no object: it throws.
  \<^item> The database: a function from the query that was built to the rows it returns, or
    to the error it throws. A row has its columns and, when the query selects
    \<^verbatim>\<open>count(*) over()\<close>, the window count, which \<^verbatim>\<open>mapWith(Number)\<close> makes a number.
\<close>

record h3event =
  query :: query
  params :: "(string \<times> string) list"
  body :: jsval

record zschema =
  shape :: "string list"
  zparse :: "obj \<Rightarrow> obj option"

definition zod_parse :: "zschema \<Rightarrow> jsval \<Rightarrow> error + obj" where
  "zod_parse sch v =
     (case v of
        VObj ps \<Rightarrow> (case zparse sch ps of None \<Rightarrow> Inl ZodError | Some r \<Rightarrow> Inr r)
      | _ \<Rightarrow> Inl ZodError)"

record row =
  cols :: obj
  row_count :: "jsnum option"

text \<open>The row as the object the schema sees.\<close>

definition row_obj :: "row \<Rightarrow> obj" where
  "row_obj r = (case row_count r of None \<Rightarrow> cols r | Some n \<Rightarrow> obj_set ''count'' (VNum n) (cols r))"

definition row_val :: "row \<Rightarrow> jsval" where
  "row_val r = VObj (row_obj r)"

record select_plan =
  columns :: "string list"
  count_over :: bool
  where_eq :: "(string \<times> jsval) option"
  order_by :: "(string \<times> direction) list option"
  limit_offset :: "(jsnum \<times> jsnum) option"

record update_plan =
  set_values :: obj
  update_where_eq :: "string \<times> jsval"

record database =
  run_select :: "select_plan \<Rightarrow> error + row list"
  run_update :: "update_plan \<Rightarrow> error + row list"

datatype canPaginate = Auto | Bool bool

type_synonym handler = "h3event \<Rightarrow> error + jsval"

text \<open>
  The options of \<^verbatim>\<open>useAPIView\<close> after its set-up: the schemas of \<^verbatim>\<open>_schema\<close> and the key
  columns of \<^verbatim>\<open>_primaryKey\<close> are the resolved ones.
\<close>

record config =
  db :: database
  event :: "h3event option"
  schema_list :: zschema
  schema_retrieve :: zschema
  schema_update :: zschema
  handlers_list :: "handler option"
  handlers_retrieve :: "handler option"
  handlers_update :: "handler option"
  primaryKey_retrieve :: string
  primaryKey_update :: string
  pagination_pageSize :: "jsnum option"
  pagination_canPaginate :: "canPaginate option"
  orderFields :: "string list option"
  defaultOrdering :: "string option"
  columnNames :: "string list"

text \<open>What an operation returns: the value of the handler that replaces it, or its own.\<close>

datatype 'a reply = Handled jsval | Built 'a

definition getEvent :: "h3event option \<Rightarrow> error + h3event" where
  "getEvent e = (case e of None \<Rightarrow> Inl (Error ''event is undefined'') | Some ev \<Rightarrow> Inr ev)"

definition getRouterParam :: "h3event \<Rightarrow> string \<Rightarrow> jsval" where
  "getRouterParam ev name = (case map_of (params ev) name of Some s \<Rightarrow> VStr s | None \<Rightarrow> VUndefined)"

definition runHandler :: "handler \<Rightarrow> h3event option \<Rightarrow> error + 'a reply" where
  "runHandler h e = ebind (getEvent e) (\<lambda>ev. ebind (h ev) (\<lambda>r. Inr (Handled r)))"

text \<open>
  \<^verbatim>\<open>(query.page as number) || 1\<close>: the cast changes nothing at run time, so the page is
  the query value itself when that is truthy, and the number 1 otherwise.
\<close>

datatype pagevalue = PQuery qvalue | PNum jsnum

definition pageOf :: "query \<Rightarrow> pagevalue" where
  "pageOf q = (if truthy (map_of q ''page'') then PQuery (the (map_of q ''page'')) else PNum (Fin 1))"

definition pageNumber :: "pagevalue \<Rightarrow> jsnum" where
  "pageNumber p = (case p of PQuery v \<Rightarrow> Number_q v | PNum n \<Rightarrow> n)"

definition paginateOf :: "canPaginate \<Rightarrow> query \<Rightarrow> bool" where
  "paginateOf cp q = ((cp = Auto \<and> map_of q ''page'' \<noteq> None) \<or> cp = Bool True)"

definition orderingOf :: "config \<Rightarrow> query \<Rightarrow> error + (string \<times> direction) list option" where
  "orderingOf cfg q =
     (if truthy (map_of q ''o'') \<and> orderFields cfg \<noteq> None
      then parseOrderQueryString (map_of q ''o'') (the (orderFields cfg))
      else (case defaultOrdering cfg of
              Some s \<Rightarrow> if s \<noteq> [] then parseOrderQueryString (Some (QStr s)) (columnNames cfg)
                        else Inr None
            | None \<Rightarrow> Inr None))"

text \<open>\<^verbatim>\<open>pagination?.pageSize ?? 24\<close> and \<^verbatim>\<open>pagination?.canPaginate ?? 'auto'\<close>.\<close>

definition pageSizeOf :: "config \<Rightarrow> jsnum" where
  "pageSizeOf cfg = (case pagination_pageSize cfg of Some n \<Rightarrow> n | None \<Rightarrow> Fin 24)"

definition canPaginateOf :: "config \<Rightarrow> canPaginate" where
  "canPaginateOf cfg = (case pagination_canPaginate cfg of Some c \<Rightarrow> c | None \<Rightarrow> Auto)"

text \<open>The query that \<^verbatim>\<open>list\<close> sends to the database.\<close>

definition list_plan :: "config \<Rightarrow> query \<Rightarrow> (string \<times> direction) list option \<Rightarrow> select_plan" where
  "list_plan cfg q order =
     (let page = pageOf q;
          pageSize = pageSizeOf cfg;
          canPaginate = canPaginateOf cfg;
          paginate = paginateOf canPaginate q
      in \<lparr> columns = shape (schema_list cfg),
           count_over = paginate,
           where_eq = None,
           order_by = order,
           limit_offset = (if paginate
                           then Some (pageSize, js_mul (js_sub (pageNumber page) (Fin 1)) pageSize)
                           else None) \<rparr>)"

record envelope =
  page :: pagevalue
  pageSize :: jsnum
  count :: jsnum
  pageCount :: jsnum
  results :: "obj list"

datatype listing = Rows "obj list" | Page envelope

text \<open>
  \<^verbatim>\<open>results[0].count ?? results.length\<close>: reading \<^verbatim>\<open>count\<close> of \<^verbatim>\<open>undefined\<close> throws a
  \<^verbatim>\<open>TypeError\<close> (the message is the runtime's, here V8's without its quotation marks).
\<close>

definition countOf :: "row list \<Rightarrow> error + jsnum" where
  "countOf rs =
     (case rs of
        [] \<Rightarrow> Inl (TypeError ''Cannot read properties of undefined (reading count)'')
      | r # _ \<Rightarrow> Inr (case row_count r of Some n \<Rightarrow> n | None \<Rightarrow> Fin (of_nat (length rs))))"

text \<open>\<^verbatim>\<open>list\<close>.\<close>

definition list :: "config \<Rightarrow> error + listing reply" where
  "list cfg =
     (case handlers_list cfg of
        Some h \<Rightarrow> runHandler h (event cfg)
      | None \<Rightarrow>
          ebind (getEvent (event cfg)) (\<lambda>ev.
            let q = query ev;
                page = pageOf q;
                pageSize = pageSizeOf cfg;
                canPaginate = canPaginateOf cfg;
                paginate = paginateOf canPaginate q
            in ebind (orderingOf cfg q) (\<lambda>order.
               ebind (run_select (db cfg) (list_plan cfg q order)) (\<lambda>rs.
               ebind (countOf rs) (\<lambda>cnt.
               ebind (emap (zod_parse (schema_list cfg)) (map row_val rs)) (\<lambda>parsed.
                 Inr (Built (if paginate
                             then Page \<lparr> page = page, pageSize = pageSize, count = cnt,
                                          pageCount = Math_ceil (js_div cnt pageSize),
                                          results = parsed \<rparr>
                             else Rows parsed))))))))"

text \<open>\<^verbatim>\<open>retrieve\<close>. \<^verbatim>\<open>results[0]\<close> of an empty result is \<^verbatim>\<open>undefined\<close>.\<close>

definition firstRow :: "row list \<Rightarrow> jsval" where
  "firstRow rs = (case rs of [] \<Rightarrow> VUndefined | r # _ \<Rightarrow> row_val r)"

text \<open>The query that \<^verbatim>\<open>retrieve\<close> sends to the database.\<close>

definition retrieve_plan :: "config \<Rightarrow> h3event \<Rightarrow> select_plan" where
  "retrieve_plan cfg ev =
     (let pk = getRouterParam ev (primaryKey_retrieve cfg)
      in \<lparr> columns = shape (schema_retrieve cfg), count_over = False,
           where_eq = Some (primaryKey_retrieve cfg, pk),
           order_by = None, limit_offset = None \<rparr>)"

definition retrieve :: "config \<Rightarrow> error + obj reply" where
  "retrieve cfg =
     (case handlers_retrieve cfg of
        Some h \<Rightarrow> runHandler h (event cfg)
      | None \<Rightarrow>
          ebind (getEvent (event cfg)) (\<lambda>ev.
            ebind (run_select (db cfg) (retrieve_plan cfg ev)) (\<lambda>rs.
            ebind (zod_parse (schema_retrieve cfg) (firstRow rs)) (\<lambda>r. Inr (Built r)))))"

text \<open>\<^verbatim>\<open>update\<close>.\<close>

definition update_plan_of :: "config \<Rightarrow> h3event \<Rightarrow> obj \<Rightarrow> update_plan" where
  "update_plan_of cfg ev vals =
     (let pk = getRouterParam ev (primaryKey_update cfg)
      in \<lparr> set_values = vals, update_where_eq = (primaryKey_update cfg, pk) \<rparr>)"

definition update :: "config \<Rightarrow> error + obj reply" where
  "update cfg =
     (case handlers_update cfg of
        Some h \<Rightarrow> runHandler h (event cfg)
      | None \<Rightarrow>
          ebind (getEvent (event cfg)) (\<lambda>ev.
            ebind (zod_parse (schema_update cfg) (body ev)) (\<lambda>vals.
            ebind (run_update (db cfg) (update_plan_of cfg ev vals)) (\<lambda>rs.
            ebind (zod_parse (schema_retrieve cfg) (firstRow rs)) (\<lambda>r. Inr (Built r))))))"

section \<open>A small resource for evaluation\<close>

text \<open>
  A table \<open>users\<close> with the columns \<open>id\<close> and \<open>name\<close>. The schema for listing and
  retrieving keeps both columns and wants both to be strings; the schema for updating
  takes a \<open>name\<close> only. \<open>emptyDb\<close> is the table with no row: every query returns no
  row. \<open>aliceDb\<close> is the table with the one row of alice: a query on another key value
  returns no row, an update returns the row with the new values.
\<close>

definition isStr :: "jsval \<Rightarrow> bool" where
  "isStr v = (case v of VStr _ \<Rightarrow> True | _ \<Rightarrow> False)"

definition idNameSchema :: zschema where
  "idNameSchema =
     \<lparr> shape = [''id'', ''name''],
       zparse = (\<lambda>ps. if isStr (obj_get ps ''id'') \<and> isStr (obj_get ps ''name'')
                      then Some [(''id'', obj_get ps ''id''), (''name'', obj_get ps ''name'')]
                      else None) \<rparr>"

definition nameSchema :: zschema where
  "nameSchema =
     \<lparr> shape = [''name''],
       zparse = (\<lambda>ps. if isStr (obj_get ps ''name'') then Some [(''name'', obj_get ps ''name'')]
                      else None) \<rparr>"

definition aliceRow :: row where
  "aliceRow = \<lparr> cols = [(''id'', VStr ''1''), (''name'', VStr ''alice'')], row_count = None \<rparr>"

definition emptyDb :: database where
  "emptyDb = \<lparr> run_select = (\<lambda>plan. Inr []), run_update = (\<lambda>plan. Inr []) \<rparr>"

definition aliceDb :: database where
  "aliceDb =
     \<lparr> run_select = (\<lambda>plan.
         Inr (case where_eq plan of
                None \<Rightarrow> [aliceRow]
              | Some (c, v) \<Rightarrow> if obj_get (cols aliceRow) c = v then [aliceRow] else [])),
       run_update = (\<lambda>plan.
         Inr (if obj_get (cols aliceRow) (fst (update_where_eq plan)) = snd (update_where_eq plan)
              then [\<lparr> cols = obj_spread (cols aliceRow) (set_values plan), row_count = None \<rparr>]
              else [])) \<rparr>"

definition usersView :: "database \<Rightarrow> canPaginate option \<Rightarrow> h3event \<Rightarrow> config" where
  "usersView d cp ev =
     \<lparr> db = d, event = Some ev,
       schema_list = idNameSchema, schema_retrieve = idNameSchema, schema_update = nameSchema,
       handlers_list = None, handlers_retrieve = None, handlers_update = None,
       primaryKey_retrieve = ''id'', primaryKey_update = ''id'',
       pagination_pageSize = None, pagination_canPaginate = cp,
       orderFields = Some [''name''], defaultOrdering = None,
       columnNames = [''id'', ''name''] \<rparr>"

section \<open>Properties of the filter parser\<close>

subsection \<open>Auxiliary facts\<close>

lemma ebind_Inr: "ebind m f = Inr d \<longleftrightarrow> (\<exists>x. m = Inr x \<and> f x = Inr d)"
  by (cases m) (auto simp: ebind_def)

lemma ebind_Inl: "ebind m f = Inl e \<longleftrightarrow> (m = Inl e \<or> (\<exists>x. m = Inr x \<and> f x = Inl e))"
  by (cases m) (auto simp: ebind_def)

lemma map_of_obj_set: "map_of (obj_set k v ps) = (map_of ps)(k \<mapsto> v)"
  by (induction ps) (auto simp: fun_eq_iff)

lemma startsWith_append: "startsWith v (p @ q) \<Longrightarrow> startsWith v p"
proof -
  assume "startsWith v (p @ q)"
  then have "take (length p) (take (length p + length q) v) = take (length p) (p @ q)"
    by (simp add: startsWith_def)
  then show ?thesis by (simp add: startsWith_def min_def)
qed

lemma startsWith_tilde_star: "startsWith v ''~*'' \<Longrightarrow> startsWith v ''~''"
  using startsWith_append[of v "''~''" "''*''"] by simp

lemma startsWith_bang_tilde_star: "startsWith v ''!~*'' \<Longrightarrow> startsWith v ''!~''"
  using startsWith_append[of v "''!~''" "''*''"] by simp

text \<open>
  A string that contains the separator splits into two parts at least; so the
  destructuring in the range branch of \<open>decodeValue\<close> always finds its two strings.
\<close>

lemma split_from_not_Nil: "split_from sep cur s \<noteq> []"
  by (induction sep cur s rule: split_from.induct) auto

lemma split_from_includes:
  "includes_str s sep \<Longrightarrow> sep \<noteq> [] \<Longrightarrow> 2 \<le> length (split_from sep cur s)"
proof (induction sep cur s rule: split_from.induct)
  case (1 sep cur)
  then show ?case by simp
next
  case (2 sep cur c cs)
  show ?case
  proof (cases "startsWith (c # cs) sep")
    case True
    have "split_from sep [] (drop (length sep) (c # cs)) \<noteq> []" by (rule split_from_not_Nil)
    then have "1 \<le> length (split_from sep [] (drop (length sep) (c # cs)))"
      by (cases "split_from sep [] (drop (length sep) (c # cs))") auto
    with True "2.prems" show ?thesis by simp
  next
    case False
    with "2.prems" have "includes_str cs sep" by simp
    with "2.IH"(2) False "2.prems" show ?thesis by simp
  qed
qed

lemma range_has_two_parts:
  assumes "includes_str v ''..''"
  shows "length (firstTwo (if startsWith v ''!'' then split (removePrefix v ''!'') ''..''
                           else split v ''..'')) = 2"
proof (cases "startsWith v ''!''")
  case True
  then obtain r where v: "v = CHR ''!'' # r" by (cases v) (auto simp: startsWith_def)
  with assms have "includes_str r ''..''" by (simp add: startsWith_def)
  then have "2 \<le> length (split r ''..'')"
    unfolding split_def by (rule split_from_includes) simp
  with True v show ?thesis by (simp add: firstTwo_def removePrefix_def)
next
  case False
  from assms have "2 \<le> length (split v ''..'')"
    unfolding split_def by (rule split_from_includes) simp
  with False show ?thesis by (simp add: firstTwo_def)
qed

text \<open>A string that starts with \<open>~\<close> or \<open>!\<close> is no number.\<close>

lemma trimWS_head:
  assumes "\<not> isStrWhiteSpace c"
  shows "\<exists>u. trimWS (c # r) = c # u"
proof -
  have "dropWhile isStrWhiteSpace (rev r @ [c]) = dropWhile isStrWhiteSpace (rev r) @ [c]
      \<or> dropWhile isStrWhiteSpace (rev r @ [c]) = [c]"
    using assms by (simp add: dropWhile_append)
  then obtain ys where "dropWhile isStrWhiteSpace (rev (c # r)) = ys @ [c]"
    by (metis append_Nil rev.simps(2))
  with assms show ?thesis by (simp add: trimWS_def)
qed

lemma Number_NaN_head:
  assumes "\<not> isStrWhiteSpace c" and "\<not> isDecimalDigit c"
    and "c \<notin> set ''+-.I''"
  shows "Number (c # r) = NaN"
proof -
  obtain u where t: "trimWS (c # r) = c # u" using trimWS_head[OF assms(1)] by blast
  have z: "c \<noteq> CHR ''0''" using assms(2) by (auto simp: isDecimalDigit_def)
  have nd: "nonDecimalLiteral (c # u) = None"
    using z by (simp add: nonDecimalLiteral_def split: list.splits)
  have inf: "c # u \<noteq> ''Infinity''" using assms(3) by auto
  have ud: "unsignedDecimal (c # u) = None"
    using assms(2,3) inf by (simp add: unsignedDecimal_def Let_def)
  show ?thesis
    using assms(3) by (simp add: Number_def Let_def t nd ud)
qed

lemma Number_tilde: "Number (CHR ''~'' # r) = NaN"
  by (rule Number_NaN_head) (simp_all add: isStrWhiteSpace_def isDecimalDigit_def)

lemma Number_bang: "Number (CHR ''!'' # r) = NaN"
  by (rule Number_NaN_head) (simp_all add: isStrWhiteSpace_def isDecimalDigit_def)

lemma map_of_single_reserved:
  "key \<notin> set reservedKeys \<Longrightarrow> r \<in> set reservedKeys \<Longrightarrow> map_of [(key, v)] r = None"
  by auto

lemma reservedKeys_mem:
  "''and'' \<in> set reservedKeys" "''or'' \<in> set reservedKeys" "''not'' \<in> set reservedKeys"
  "''page'' \<in> set reservedKeys" "''size'' \<in> set reservedKeys" "''sort'' \<in> set reservedKeys"
  "''q'' \<in> set reservedKeys"
  by (simp_all add: reservedKeys_def)

text \<open>What the cast functions can throw.\<close>

lemma BigInt_error: "BigInt s = Inl e \<Longrightarrow> \<exists>m. e = SyntaxError m"
  by (auto simp: BigInt_def split: option.splits)

lemma castValue_error: "castValue dp s = Inl e \<Longrightarrow> \<exists>m. e = SyntaxError m"
  by (auto simp: castValue_def Let_def split: if_splits option.splits dest: BigInt_error)

lemma castNumberish_error:
  "castNumberish dp s = Inl e \<Longrightarrow> e = Error ''Not a numberish value'' \<or> (\<exists>m. e = SyntaxError m)"
  by (auto simp: castNumberish_def Let_def split: if_splits option.splits dest: BigInt_error)

lemma emap_error: "emap f xs = Inl e \<Longrightarrow> \<exists>x \<in> set xs. f x = Inl e"
  by (induction xs) (auto split: sum.splits)

lemma castArray_error:
  "castArray dp xs = Inl e \<Longrightarrow> e = Error ''Not an array of the same type'' \<or> (\<exists>m. e = SyntaxError m)"
  by (auto simp: castArray_def ebind_Inl Let_def split: if_splits
           dest!: emap_error castValue_error)

lemma castNumberish_not_impl: "castNumberish dp s \<noteq> Inl (Error ''Not implemented'')"
  using castNumberish_error[of dp s "Error ''Not implemented''"] by auto

lemma castArray_not_impl: "castArray dp s \<noteq> Inl (Error ''Not implemented'')"
  using castArray_error[of dp s "Error ''Not implemented''"] by auto

lemma emap_castValue_not_impl: "emap (castValue dp) xs \<noteq> Inl (Error ''Not implemented'')"
  using emap_error[of "castValue dp" xs "Error ''Not implemented''"] castValue_error by blast

text \<open>The shape of what \<open>decodeValue\<close> returns and throws.\<close>

lemma decodeValue_one: "decodeValue dp v = Inr d \<Longrightarrow> \<exists>k x. d = [(k, x)]"
  unfolding decodeValue_def Let_def
  by (simp add: ebind_Inr split: if_splits) blast+

lemma decodeValue_not_and: "decodeValue dp v \<noteq> Inr [(''$and'', x)]"
  unfolding decodeValue_def Let_def
  by (simp add: ebind_Inr)

lemma decodeValue_not_impl: "decodeValue dp v \<noteq> Inl (Error ''Not implemented'')"
  unfolding decodeValue_def Let_def
  by (simp add: ebind_Inl castNumberish_not_impl castArray_not_impl emap_castValue_not_impl)

text \<open>
  The branches of \<open>decodeValue\<close> for \<open>~*\<close> and \<open>!~*\<close> come after those for \<open>~\<close> and
  \<open>!~\<close>, which take every string that would reach them: no input decodes to
  \<open>$ilike\<close> or \<open>$nilike\<close>.
\<close>

lemma decodeValue_never_ilike:
  "decodeValue dp v \<noteq> Inr [(''$ilike'', x)]" "decodeValue dp v \<noteq> Inr [(''$nilike'', x)]"
  unfolding decodeValue_def Let_def
  using startsWith_tilde_star[of v] startsWith_bang_tilde_star[of v]
  by (auto simp add: ebind_Inr)

lemma handleArray_step_not_impl:
  "handleArray_step dp qo v \<noteq> Inl (Error ''Not implemented'')"
proof (cases "decodeValue dp v")
  case (Inl e)
  then show ?thesis
    using decodeValue_not_impl[of dp v] by (simp add: handleArray_step_def ebind_def)
next
  case (Inr d)
  then obtain k x where "d = [(k, x)]" using decodeValue_one by blast
  with Inr show ?thesis
    by (simp add: handleArray_step_def ebind_def obj_keys_def)
qed

lemma handleArray_loop_not_impl:
  "handleArray_loop dp qo vs \<noteq> Inl (Error ''Not implemented'')"
proof (induction vs arbitrary: qo)
  case Nil
  show ?case by simp
next
  case (Cons v vs)
  show ?case
    using handleArray_step_not_impl[of dp qo v] Cons.IH
    by (cases "handleArray_step dp qo v") auto
qed

text \<open>The entries loop stores each entry under its key and leaves the other keys alone.\<close>

lemma decodeEntries_other:
  "decodeEntries dp acc es = Inr f \<Longrightarrow> k \<notin> fst ` set es \<Longrightarrow> map_of f k = map_of acc k"
proof (induction es arbitrary: acc)
  case Nil
  then show ?case by simp
next
  case (Cons e es)
  obtain key val where e: "e = (key, val)" by (cases e)
  from Cons.prems(1) e obtain d where d: "decodeParam dp val = Inr d"
    and rest: "decodeEntries dp (obj_set key (VObj d) acc) es = Inr f"
    by (auto split: sum.splits)
  from Cons.prems(2) e have "k \<noteq> key" and "k \<notin> fst ` set es" by auto
  with Cons.IH[OF rest] show ?case by (simp add: map_of_obj_set)
qed

lemma decodeEntries_lookup:
  "decodeEntries dp acc es = Inr f \<Longrightarrow> distinct (map fst es) \<Longrightarrow> (k, val) \<in> set es \<Longrightarrow>
   \<exists>d. decodeParam dp val = Inr d \<and> map_of f k = Some (VObj d)"
proof (induction es arbitrary: acc)
  case Nil
  then show ?case by simp
next
  case (Cons e es)
  obtain key v where e: "e = (key, v)" by (cases e)
  from Cons.prems(1) e obtain d where d: "decodeParam dp v = Inr d"
    and rest: "decodeEntries dp (obj_set key (VObj d) acc) es = Inr f"
    by (auto split: sum.splits)
  show ?case
  proof (cases "(k, val) = (key, v)")
    case True
    with Cons.prems(2) e have "k \<notin> fst ` set es" by auto
    from decodeEntries_other[OF rest this] True d show ?thesis
      by (simp add: map_of_obj_set)
  next
    case False
    with Cons.prems(3) e have "(k, val) \<in> set es" by auto
    moreover from Cons.prems(2) have "distinct (map fst es)" by simp
    ultimately show ?thesis using Cons.IH[OF rest] by blast
  qed
qed

lemma attachGroup_other:
  "attachGroup dp gq q key name flt = Inr f \<Longrightarrow> k \<noteq> name \<Longrightarrow> map_of f k = map_of flt k"
  by (auto simp: attachGroup_def ebind_Inr map_of_obj_set split: if_splits option.splits)

subsection \<open>The pattern operators\<close>

text \<open>
  C1. The claim is that the prefixes \<open>~\<close>, \<open>!~\<close>, \<open>~*\<close> and \<open>!~*\<close> decode to Like,
  NotLike, ILike and NotILike, each with the rest of the string as operand. The code
  tests \<open>~\<close> before \<open>~*\<close> and \<open>!~\<close> before \<open>!~*\<close>: \<open>~*foo\<close> decodes to \<open>$like\<close> with
  operand \<open>*foo\<close>, and \<open>!~*foo\<close> to \<open>$nlike\<close> with operand \<open>*foo\<close>.
\<close>

theorem decodeValue_ilike_prefix:
  "decodeValue Date_parse_ymd ''~*foo'' = Inr [(''$like'', VStr ''*foo'')]
   \<and> decodeValue Date_parse_ymd ''!~*foo'' = Inr [(''$nlike'', VStr ''*foo'')]"
  by code_simp

text \<open>
  The two shorter prefixes decode as the claim says, for every string that reaches
  their branches, that is, one with no \<open>..\<close> and no comma in it.
\<close>

lemma decodeValue_like:
  assumes "\<not> includes_str (CHR ''~'' # r) ''..''" and "\<not> includes_str (CHR ''~'' # r) '',''"
  shows "decodeValue dp (CHR ''~'' # r) = Inr [(''$like'', VStr r)]"
  using assms
  by (simp add: decodeValue_def Let_def isNaN_def Number_tilde startsWith_def removePrefix_def)

lemma decodeValue_nlike:
  assumes "\<not> includes_str (''!~'' @ r) ''..''" and "\<not> includes_str (''!~'' @ r) '',''"
  shows "decodeValue dp (''!~'' @ r) = Inr [(''$nlike'', VStr r)]"
  using assms
  by (simp add: decodeValue_def Let_def isNaN_def Number_bang startsWith_def removePrefix_def)

text \<open>The earlier copy of the decoder orders the four branches the same way.\<close>

lemma decodeValue_002_ilike_prefix:
  "decodeValue_002 ''~*foo'' = [(''$like'', VStr ''*foo'')]
   \<and> decodeValue_002 ''!~*foo'' = [(''$nlike'', VStr ''*foo'')]"
  by code_simp

lemma decodeValue_002_never_ilike:
  "decodeValue_002 v \<noteq> [(''$ilike'', x)]" "decodeValue_002 v \<noteq> [(''$nilike'', x)]"
  unfolding decodeValue_002_def Let_def
  using startsWith_tilde_star[of v] startsWith_bang_tilde_star[of v]
  by auto

subsection \<open>The value coercer\<close>

text \<open>
  C2. The claim is that a numeric token yields a Number when its value is a safe
  integer or a floating value such as \<open>1.5\<close>, and a BigInteger otherwise. The code
  hands every number that is not a safe integer to \<^verbatim>\<open>BigInt\<close>, which throws on a string
  with a fraction: \<open>castValue\<close> of \<open>1.5\<close> throws a \<^verbatim>\<open>SyntaxError\<close>, and so does the
  decoding of the range \<open>1.5..2.5\<close>, which coerces its two ends.
\<close>

theorem castValue_fraction_throws:
  "castValue Date_parse_ymd ''1.5'' = Inl (SyntaxError ''Cannot convert 1.5 to a BigInt'')
   \<and> decodeValue Date_parse_ymd ''1.5..2.5'' = Inl (SyntaxError ''Cannot convert 1.5 to a BigInt'')"
  by code_simp

text \<open>
  The other rules of the coercer are as the claim gives them: the three literals in
  any case, a safe integer as a Number, a number that is no safe integer through
  \<^verbatim>\<open>BigInt\<close>, then a date, then the string itself.
\<close>

lemma castValue_literals:
  "toLowerCase v = ''true'' \<Longrightarrow> castValue dp v = Inr (VBool True)"
  "toLowerCase v = ''false'' \<Longrightarrow> castValue dp v = Inr (VBool False)"
  "toLowerCase v = ''null'' \<Longrightarrow> castValue dp v = Inr VNull"
  by (auto simp: castValue_def Let_def toLowerCase_def)

lemma castValue_safe_integer:
  assumes "v \<noteq> []" and "toLowerCase v \<notin> {''true'', ''false'', ''null''}"
    and "isSafeInteger (Number v)"
  shows "castValue dp v = Inr (VNum (Number v))"
  using assms by (auto simp: castValue_def Let_def isNaN_def isSafeInteger_def)

lemma castValue_not_safe:
  assumes "v \<noteq> []" and "toLowerCase v \<notin> {''true'', ''false'', ''null''}"
    and "\<not> isNaN (Number v)" and "\<not> isSafeInteger (Number v)"
  shows "castValue dp v = BigInt v"
  using assms by (auto simp: castValue_def Let_def)

lemma castValue_not_numeric:
  assumes "v \<noteq> []" and "toLowerCase v \<notin> {''true'', ''false'', ''null''}"
    and "isNaN (Number v)"
  shows "castValue dp v = (case dp v of Some t \<Rightarrow> Inr (VDate t) | None \<Rightarrow> Inr (VStr v))"
  using assms by (auto simp: castValue_def Let_def)

lemma castValue_examples:
  "castValue Date_parse_ymd ''true'' = Inr (VBool True)"
  "castValue Date_parse_ymd ''42'' = Inr (VNum (Fin 42))"
  "castValue Date_parse_ymd ''99999999999999999999'' = Inr (VBigInt 99999999999999999999)"
  "castValue Date_parse_ymd ''2020-01-01'' = Inr (VDate 1577836800000)"
  "castValue Date_parse_ymd ''not-a-number'' = Inr (VStr ''not-a-number'')"
  by code_simp+

subsection \<open>Unknown filter fields\<close>

text \<open>
  C3, as stated: a non-reserved key outside the allow-list of filterable fields makes
  the parser fail. \<open>processQuery\<close> has no allow-list; with the filterable fields
  \<open>age\<close>, the key \<open>foo\<close> is decoded, and the request goes through with a filter on it.
\<close>

theorem processQuery_unknown_field_counterexample:
  "''foo'' \<notin> set [''age''] \<and> ''foo'' \<notin> set reservedKeys \<and>
   processQuery Date_parse_ymd emptyQuery [(''foo'', QStr ''bar'')]
     = Inr \<lparr> filter_p = [(''foo'', VObj [(''$eq'', VStr ''bar'')])], page_p = Fin 1, size_p = Fin 10,
             sort_p = QStr ''id'', searchQuery_p = QStr [] \<rparr>"
  by code_simp

text \<open>
  C3, amended: whenever the parser succeeds, every non-reserved key of the query
  (other than the names \<open>$and\<close>, \<open>$or\<close> and \<open>$not\<close>, which a group may take over) has
  its decoded predicate in the filter, under its own name, whatever the filterable
  fields of the resource are.
\<close>

theorem processQuery_applies_every_key:
  assumes ok: "processQuery dp gq q = Inr r"
    and dist: "distinct (map fst q)"
    and mem: "(k, val) \<in> set q"
    and nonres: "k \<notin> set reservedKeys"
    and nongroup: "k \<notin> {''$and'', ''$or'', ''$not''}"
  shows "\<exists>d. decodeParam dp val = Inr d \<and> map_of (filter_p r) k = Some (VObj d)"
proof -
  let ?restQ = "filter (\<lambda>e. fst e \<notin> set reservedKeys) q"
  from ok obtain f0 f1 f2 f3 where
    f0: "decodeEntries dp [] ?restQ = Inr f0"
    and f1: "attachGroup dp gq q ''and'' ''$and'' f0 = Inr f1"
    and f2: "attachGroup dp gq q ''or'' ''$or'' f1 = Inr f2"
    and f3: "attachGroup dp gq q ''not'' ''$not'' f2 = Inr f3"
    and r: "filter_p r = f3"
    unfolding processQuery_def Let_def ebind_Inr by auto
  have "distinct (map fst ?restQ)" using dist by (simp add: distinct_map_filter)
  moreover have "(k, val) \<in> set ?restQ" using mem nonres by simp
  ultimately obtain d where d: "decodeParam dp val = Inr d" and l0: "map_of f0 k = Some (VObj d)"
    using decodeEntries_lookup[OF f0] by blast
  from nongroup have "k \<noteq> ''$and''" "k \<noteq> ''$or''" "k \<noteq> ''$not''" by auto
  with attachGroup_other[OF f1] attachGroup_other[OF f2] attachGroup_other[OF f3] l0 r
  have "map_of (filter_p r) k = Some (VObj d)" by simp
  with d show ?thesis by blast
qed

text \<open>The amended C3 at the query \<open>foo=bar&page=2\<close>.\<close>

theorem processQuery_applies_every_key_witness:
  "processQuery Date_parse_ymd emptyQuery [(''foo'', QStr ''bar''), (''page'', QStr ''2'')]
     = Inr \<lparr> filter_p = [(''foo'', VObj [(''$eq'', VStr ''bar'')])], page_p = Fin 2, size_p = Fin 10,
             sort_p = QStr ''id'', searchQuery_p = QStr [] \<rparr>
   \<and> distinct (map fst [(''foo'', QStr ''bar''), (''page'', QStr ''2'')])
   \<and> (''foo'', QStr ''bar'') \<in> set [(''foo'', QStr ''bar''), (''page'', QStr ''2'')]
   \<and> ''foo'' \<notin> set reservedKeys
   \<and> ''foo'' \<notin> {''$and'', ''$or'', ''$not''}
   \<and> (\<exists>d. decodeParam Date_parse_ymd (QStr ''bar'') = Inr d
         \<and> map_of [(''foo'', VObj [(''$eq'', VStr ''bar'')])] ''foo'' = Some (VObj d))"
proof -
  let ?q = "[(''foo'', QStr ''bar''), (''page'', QStr ''2'')]"
  let ?r = "\<lparr> filter_p = [(''foo'', VObj [(''$eq'', VStr ''bar'')])], page_p = Fin 2, size_p = Fin 10,
             sort_p = QStr ''id'', searchQuery_p = QStr [] \<rparr>"
  have h1: "processQuery Date_parse_ymd emptyQuery ?q = Inr ?r" by code_simp
  have h2: "distinct (map fst ?q)" by simp
  have h3: "(''foo'', QStr ''bar'') \<in> set ?q" by simp
  have h4: "''foo'' \<notin> set reservedKeys" by (simp add: reservedKeys_def)
  have h5: "''foo'' \<notin> {''$and'', ''$or'', ''$not''}" by simp
  from processQuery_applies_every_key[OF h1 h2 h3 h4 h5] h1 h2 h3 h4 h5
  show ?thesis by simp
qed

text \<open>
  When the parser fails, a value did not decode, or a group parameter was given twice:
  no failure comes from the name of a key.
\<close>

lemma decodeValue_error_kinds: "decodeValue dp v = Inl e \<Longrightarrow> decodeError e"
  unfolding decodeValue_def Let_def decodeError_def
  by (auto simp: ebind_Inl split: if_splits
           dest!: castNumberish_error castArray_error emap_error castValue_error)

lemma handleArray_step_error_kinds: "handleArray_step dp qo v = Inl e \<Longrightarrow> decodeError e"
proof (cases "decodeValue dp v")
  case (Inl e')
  assume "handleArray_step dp qo v = Inl e"
  with Inl have "e = e'" by (simp add: handleArray_step_def ebind_def)
  with Inl show ?thesis using decodeValue_error_kinds by blast
next
  case (Inr d)
  assume h: "handleArray_step dp qo v = Inl e"
  from Inr obtain k x where "d = [(k, x)]" using decodeValue_one by blast
  with Inr h show ?thesis
    by (simp add: handleArray_step_def ebind_def obj_keys_def split: if_splits)
qed

lemma handleArray_loop_error_kinds: "handleArray_loop dp qo vs = Inl e \<Longrightarrow> decodeError e"
proof (induction vs arbitrary: qo)
  case Nil
  then show ?case by simp
next
  case (Cons v vs)
  then show ?case
    using handleArray_step_error_kinds[of dp qo v]
    by (cases "handleArray_step dp qo v") auto
qed

lemma decodeParam_error_kinds: "decodeParam dp val = Inl e \<Longrightarrow> decodeError e"
  using decodeValue_error_kinds handleArray_loop_error_kinds
  by (cases val) (auto simp: decodeParam_def handleArray_def)

lemma decodeEntries_error_kinds: "decodeEntries dp acc es = Inl e \<Longrightarrow> decodeError e"
proof (induction es arbitrary: acc)
  case Nil
  then show ?case by simp
next
  case (Cons p es)
  obtain key val where p: "p = (key, val)" by (cases p)
  with Cons show ?case
    using decodeParam_error_kinds[of dp val]
    by (cases "decodeParam dp val") auto
qed

lemma attachGroup_error_kinds:
  "attachGroup dp gq q key name flt = Inl e \<Longrightarrow>
   decodeError e \<or> e = TypeError ''value.substring is not a function''"
  using decodeEntries_error_kinds
  by (auto simp: attachGroup_def parseAndOrNot_def ebind_Inl Let_def
           split: if_splits option.splits qvalue.splits)

lemma processQuery_error_kinds:
  "processQuery dp gq q = Inl e \<Longrightarrow>
   decodeError e \<or> e = TypeError ''value.substring is not a function''"
  unfolding processQuery_def Let_def ebind_Inl
  using decodeEntries_error_kinds attachGroup_error_kinds by blast

subsection \<open>A filter key given twice\<close>

text \<open>
  C7. When a key is given twice and both values decode to the same operator key, the
  array path returns the \<open>$and\<close> of the two decoded predicates, the first one first:
  the second value does not replace the first. For a key that is not reserved, that
  is the predicate the parser stores under the key.
\<close>

theorem handleArray_merges_duplicates:
  assumes "decodeValue dp a = Inr [(k, x)]" and "decodeValue dp b = Inr [(k, y)]"
  shows "handleArray dp [a, b] = Inr [(''$and'', VArr [VObj [(k, x)], VObj [(k, y)]])]
       \<and> (key \<notin> set reservedKeys \<longrightarrow>
            processQuery dp gq [(key, QArr [a, b])]
              = Inr \<lparr> filter_p = [(key, VObj [(''$and'', VArr [VObj [(k, x)], VObj [(k, y)]])])],
                      page_p = Fin 1, size_p = Fin 10, sort_p = QStr ''id'', searchQuery_p = QStr [] \<rparr>)"
proof -
  have k: "k \<noteq> ''$and''" using assms(1) decodeValue_not_and by blast
  have h: "handleArray dp [a, b] = Inr [(''$and'', VArr [VObj [(k, x)], VObj [(k, y)]])]"
    using assms k
    by (simp add: handleArray_def handleArray_step_def ebind_def obj_keys_def hasOwnProperty_def
        obj_spread_def obj_get_def obj_delete_def)
  have "processQuery dp gq [(key, QArr [a, b])]
          = Inr \<lparr> filter_p = [(key, VObj [(''$and'', VArr [VObj [(k, x)], VObj [(k, y)]])])],
                  page_p = Fin 1, size_p = Fin 10, sort_p = QStr ''id'', searchQuery_p = QStr [] \<rparr>"
    if "key \<notin> set reservedKeys"
    using that h
    by (simp add: processQuery_def Let_def ebind_def decodeParam_def attachGroup_def truthy_def
          map_of_single_reserved[OF that] reservedKeys_mem del: map_of.simps)
  with h show ?thesis by blast
qed

text \<open>C7 at the query \<open>age=>=1&age=>=5\<close>.\<close>

theorem handleArray_merges_duplicates_witness:
  "decodeValue Date_parse_ymd ''>=1'' = Inr [(''$gte'', VNum (Fin 1))]
   \<and> decodeValue Date_parse_ymd ''>=5'' = Inr [(''$gte'', VNum (Fin 5))]
   \<and> handleArray Date_parse_ymd [''>=1'', ''>=5'']
       = Inr [(''$and'', VArr [VObj [(''$gte'', VNum (Fin 1))], VObj [(''$gte'', VNum (Fin 5))]])]
   \<and> ''age'' \<notin> set reservedKeys
   \<and> processQuery Date_parse_ymd emptyQuery [(''age'', QArr [''>=1'', ''>=5''])]
       = Inr \<lparr> filter_p = [(''age'', VObj [(''$and'', VArr [VObj [(''$gte'', VNum (Fin 1))],
                                                           VObj [(''$gte'', VNum (Fin 5))]])])],
               page_p = Fin 1, size_p = Fin 10, sort_p = QStr ''id'', searchQuery_p = QStr [] \<rparr>"
proof -
  have h1: "decodeValue Date_parse_ymd ''>=1'' = Inr [(''$gte'', VNum (Fin 1))]" by code_simp
  have h2: "decodeValue Date_parse_ymd ''>=5'' = Inr [(''$gte'', VNum (Fin 5))]" by code_simp
  have h3: "''age'' \<notin> set reservedKeys" by (simp add: reservedKeys_def)
  from handleArray_merges_duplicates[OF h1 h2, of "''age''" emptyQuery] h1 h2 h3
  show ?thesis by simp
qed

text \<open>The earlier copy of the array path merges the two predicates in the same way.\<close>

lemma decodeValue_002_one: "\<exists>k x. decodeValue_002 v = [(k, x)]"
  unfolding decodeValue_002_def Let_def by simp

lemma decodeValue_002_not_and: "decodeValue_002 v \<noteq> [(''$and'', x)]"
  unfolding decodeValue_002_def Let_def by simp

lemma handleArray_002_merges_duplicates:
  assumes "decodeValue_002 a = [(k, x)]" and "decodeValue_002 b = [(k, y)]"
  shows "handleArray_002 [a, b] = Inr [(''$and'', VArr [VObj [(k, x)], VObj [(k, y)]])]"
proof -
  have k: "k \<noteq> ''$and''" using assms(1) decodeValue_002_not_and by blast
  show ?thesis
    using assms k
    by (simp add: handleArray_002_def handleArray_step_002_def Let_def obj_keys_def
        hasOwnProperty_def obj_spread_def obj_get_def obj_delete_def)
qed

subsection \<open>One operator key per decoded value\<close>

text \<open>
  C10. Whenever \<open>decodeValue\<close> returns, the object it returns has exactly one key; and
  \<open>handleArray\<close>, on any array of strings, never throws the \<open>Not implemented\<close> error
  of its branch for a decoded element with more than one key.
\<close>

theorem decodeValue_single_key:
  "(decodeValue dp v = Inr d \<longrightarrow> length (obj_keys d) = 1)
   \<and> handleArray dp vs \<noteq> Inl (Error ''Not implemented'')"
proof
  show "decodeValue dp v = Inr d \<longrightarrow> length (obj_keys d) = 1"
    using decodeValue_one[of dp v d] by (auto simp: obj_keys_def)
  show "handleArray dp vs \<noteq> Inl (Error ''Not implemented'')"
    unfolding handleArray_def by (rule handleArray_loop_not_impl)
qed

text \<open>C10 at the value \<open>>=5\<close> and the array of \<open>>=5\<close> and \<open><9\<close>.\<close>

theorem decodeValue_single_key_witness:
  "decodeValue Date_parse_ymd ''>=5'' = Inr [(''$gte'', VNum (Fin 5))]
   \<and> length (obj_keys [(''$gte'', VNum (Fin 5))]) = 1
   \<and> handleArray Date_parse_ymd [''>=5'', ''<9''] \<noteq> Inl (Error ''Not implemented'')"
proof -
  have h: "decodeValue Date_parse_ymd ''>=5'' = Inr [(''$gte'', VNum (Fin 5))]"
    by code_simp
  from decodeValue_single_key[of Date_parse_ymd "''>=5''" "[(''$gte'', VNum (Fin 5))]" "[''>=5'', ''<9'']"] h
  show ?thesis by simp
qed

section \<open>Properties of the ordering parser\<close>

subsection \<open>Auxiliary facts\<close>

text \<open>Splitting at commas, and the record built from the parts.\<close>

lemma split_from_comma:
  "split_from '','' cur s =
     (cur @ takeWhile notComma s) #
     (case dropWhile notComma s of [] \<Rightarrow> [] | c # r \<Rightarrow> split_from '','' [] r)"
proof (induction s arbitrary: cur)
  case Nil
  show ?case by simp
next
  case (Cons c cs)
  show ?case
  proof (cases "c = CHR '',''")
    case True
    then show ?thesis by (simp add: startsWith_def)
  next
    case False
    then show ?thesis using Cons.IH[of "cur @ [c]"] by (simp add: startsWith_def)
  qed
qed

lemma split_comma:
  "split s '','' =
     takeWhile notComma s #
     (case dropWhile notComma s of [] \<Rightarrow> [] | c # r \<Rightarrow> split r '','')"
  unfolding split_def using split_from_comma[of "[]" s] by simp

lemma takeWhile_notComma:
  "CHR '','' \<notin> set t \<Longrightarrow> takeWhile notComma (t @ r) = t @ takeWhile notComma r"
  by (induction t) auto

lemma dropWhile_notComma:
  "CHR '','' \<notin> set t \<Longrightarrow> dropWhile notComma (t @ r) = dropWhile notComma r"
  by (induction t) auto

lemma plainName_no_comma: "plainName f \<Longrightarrow> CHR '','' \<notin> set f"
  by (auto simp: plainName_def isNameStart_def isDecimalDigit_def list_all_iff Let_def split: list.splits)

lemma plainName_no_dash: "plainName f \<Longrightarrow> CHR ''-'' \<notin> set f"
  by (auto simp: plainName_def isNameStart_def isDecimalDigit_def list_all_iff Let_def split: list.splits)

lemma allowedPart_iff:
  assumes "list_all plainName fs"
  shows "allowedPart fs t \<longleftrightarrow> t \<in> set fs \<or> (\<exists>f \<in> set fs. t = CHR ''-'' # f)"
proof -
  have nd: "\<And>f. f \<in> set fs \<Longrightarrow> CHR ''-'' \<notin> set f"
    using assms plainName_no_dash by (auto simp: list_all_iff)
  show ?thesis
  proof (cases t)
    case Nil
    then show ?thesis by (simp add: allowedPart_def orderPart_def startsWith_def)
  next
    case (Cons c r)
    show ?thesis
    proof (cases "c = CHR ''-''")
      case True
      with Cons nd[of t] show ?thesis
        by (auto simp: allowedPart_def orderPart_def startsWith_def)
    next
      case False
      with Cons show ?thesis
        by (auto simp: allowedPart_def orderPart_def startsWith_def)
    qed
  qed
qed

lemma allowedPart_no_comma:
  assumes "list_all plainName fs" and "allowedPart fs t"
  shows "CHR '','' \<notin> set t"
  using assms allowedPart_iff[OF assms(1), of t] plainName_no_comma
  by (auto simp: list_all_iff)

lemma matchField_iff:
  assumes "fs \<noteq> []"
  shows "r \<in> set (matchField fs s) \<longleftrightarrow> (\<exists>f \<in> set fs. s = f @ r)"
proof -
  have "\<And>f. (startsWith s f \<and> r = removePrefix s f) \<longleftrightarrow> s = f @ r"
    unfolding startsWith_def removePrefix_def
    by (metis append_eq_conv_conj)
  then show ?thesis
    using assms by (auto simp: matchField_def alternatives_def)
qed

lemma matchItem_iff:
  assumes "list_all plainName fs" and "fs \<noteq> []"
  shows "r \<in> set (matchItem fs s) \<longleftrightarrow> (\<exists>t. allowedPart fs t \<and> s = t @ r)"
proof -
  have "r \<in> set (matchItem fs s) \<longleftrightarrow>
        (\<exists>f \<in> set fs. s = f @ r) \<or> (\<exists>f \<in> set fs. s = CHR ''-'' # f @ r)"
    using matchField_iff[OF assms(2)]
    by (cases s) (auto simp: matchItem_def)
  also have "\<dots> \<longleftrightarrow> (\<exists>t. allowedPart fs t \<and> s = t @ r)"
    unfolding allowedPart_iff[OF assms(1)] by auto
  finally show ?thesis .
qed

lemma match_iff_split:
  assumes plain: "list_all plainName fs" and ne: "fs \<noteq> []"
  shows "list_ex (matchTail fs) (matchItem fs s) \<longleftrightarrow> list_all (allowedPart fs) (split s '','')"
proof (induction s rule: length_induct)
  case (1 s)
  let ?t = "takeWhile notComma s" and ?d = "dropWhile notComma s"
  have s: "s = ?t @ ?d" by simp
  have tail: "\<And>r. length r < length s \<Longrightarrow>
      matchTail fs (CHR '','' # r) \<longleftrightarrow> list_all (allowedPart fs) (split r '','')"
    using 1 by simp
  show ?case
  proof
    assume "list_ex (matchTail fs) (matchItem fs s)"
    then obtain r where r: "r \<in> set (matchItem fs s)" and mt: "matchTail fs r"
      by (auto simp: list_ex_iff)
    from r obtain t where t: "allowedPart fs t" and st: "s = t @ r"
      using matchItem_iff[OF plain ne] by blast
    have nc: "CHR '','' \<notin> set t" using allowedPart_no_comma[OF plain t] .
    show "list_all (allowedPart fs) (split s '','')"
    proof (cases r)
      case Nil
      have tw: "takeWhile notComma t = t" using takeWhile_notComma[OF nc, of "[]"] by simp
      have dw: "dropWhile notComma t = []" using dropWhile_notComma[OF nc, of "[]"] by simp
      have "split t '','' = [t]" unfolding split_comma[of t] tw dw by simp
      with st Nil t show ?thesis by simp
    next
      case (Cons c r')
      with mt have c: "c = CHR '',''" by simp
      have tw: "takeWhile notComma s = t" using st nc Cons c
        by (simp add: takeWhile_notComma)
      have dw: "dropWhile notComma s = CHR '','' # r'" using st nc Cons c
        by (simp add: dropWhile_notComma)
      have "length r' < length s" using st Cons by simp
      with tail[of r'] mt Cons c have "list_all (allowedPart fs) (split r' '','')" by simp
      with t tw dw show ?thesis by (subst split_comma) simp
    qed
  next
    assume all: "list_all (allowedPart fs) (split s '','')"
    then have t: "allowedPart fs ?t" by (subst (asm) split_comma) simp
    show "list_ex (matchTail fs) (matchItem fs s)"
    proof (cases ?d)
      case Nil
      then have "s = ?t @ []" using takeWhile_dropWhile_id[of notComma s] by (simp only: append_Nil2)
      with t have "[] \<in> set (matchItem fs s)" using matchItem_iff[OF plain ne, of "[]" s] by auto
      then show ?thesis by (auto simp: list_ex_iff intro: bexI[of _ "[]"])
    next
      case (Cons c r')
      then have c: "c = CHR '',''" using hd_dropWhile[of notComma s] by auto
      from all Cons have rest: "list_all (allowedPart fs) (split r' '','')"
        by (subst (asm) split_comma) simp
      have "length r' < length s" using s Cons
        by (metis length_append length_Cons le_add2 less_le_trans lessI)
      with tail[of r'] rest have "matchTail fs (CHR '','' # r')" by simp
      moreover have "(CHR '','' # r') \<in> set (matchItem fs s)"
        using matchItem_iff[OF plain ne, of "CHR '','' # r'" s] t s Cons c by metis
      ultimately show ?thesis unfolding list_ex_iff by blast
    qed
  qed
qed

lemma split_not_Nil: "split s '','' \<noteq> []"
  by (subst split_comma) simp

lemma obj_set_not_Nil: "obj_set k v ps \<noteq> []"
  by (cases ps) (auto split: if_splits)

lemma foldl_obj_set_not_Nil:
  "acc \<noteq> [] \<Longrightarrow> foldl (\<lambda>acc p. obj_set (fst p) (snd p) acc) acc xs \<noteq> []"
  by (induction xs arbitrary: acc) (auto simp: obj_set_not_Nil)

lemma obj_set_fresh: "k \<notin> fst ` set ps \<Longrightarrow> obj_set k v ps = ps @ [(k, v)]"
  by (induction ps) auto

lemma foldl_obj_set_distinct:
  "distinct (map fst xs) \<Longrightarrow> fst ` set acc \<inter> fst ` set xs = {} \<Longrightarrow>
   foldl (\<lambda>acc p. obj_set (fst p) (snd p) acc) acc xs = acc @ xs"
proof (induction xs arbitrary: acc)
  case Nil
  show ?case by simp
next
  case (Cons x xs)
  have fresh: "fst x \<notin> fst ` set acc" using Cons.prems(2) by auto
  have "fst ` set (acc @ [x]) \<inter> fst ` set xs = {}" using Cons.prems by auto
  with Cons.IH[of "acc @ [x]"] Cons.prems(1) fresh show ?case
    by (simp add: obj_set_fresh)
qed

subsection \<open>Fields and directions\<close>

text \<open>
  C8, as stated: each comma-separated part is mapped to its field with the direction
  ascending, or descending after a leading \<open>-\<close>. The parts are collected in a record
  keyed by field, so a field named twice appears once: \<open>name,-name\<close> has the parts
  \<open>(name, asc)\<close> and \<open>(name, desc)\<close>, and the parser returns \<open>(name, desc)\<close> alone.
\<close>

theorem parseOrderQueryString_duplicate_counterexample:
  "parseOrderQueryString (Some (QStr ''name,-name'')) [''name'', ''age''] = Inr (Some [(''name'', desc)])
   \<and> map orderPart (split ''name,-name'' '','') = [(''name'', asc), (''name'', desc)]"
  by code_simp

text \<open>
  C8, amended: for valid fields that are plain names, at least one of them, and a
  specification that is not empty, the parser succeeds exactly when every part is a
  valid field or \<open>-\<close> and a valid field, and fails with the validation error
  otherwise. On success the result is the record of the parts, a field named again
  keeping its place and taking the later direction; when no field is named twice that
  is the list of (field, direction) pairs in the order written.
\<close>

theorem parseOrderQueryString_parts:
  assumes plain: "list_all plainName validFields" and ne: "validFields \<noteq> []" and s: "s \<noteq> []"
  shows "parseOrderQueryString (Some (QStr s)) validFields =
           (if list_all (allowedPart validFields) (split s '','')
            then Inr (Some (foldl (\<lambda>acc p. obj_set (fst p) (snd p) acc) []
                              (map orderPart (split s '',''))))
            else Inl ZodError)
         \<and> (distinct (map (fst \<circ> orderPart) (split s '','')) \<longrightarrow>
              foldl (\<lambda>acc p. obj_set (fst p) (snd p) acc) [] (map orderPart (split s '',''))
                = map orderPart (split s '',''))"
proof
  let ?parts = "map orderPart (split s '','')"
  have "?parts \<noteq> []" using split_not_Nil by simp
  then obtain p ps where "?parts = p # ps" by (cases ?parts) auto
  then have "foldl (\<lambda>acc p. obj_set (fst p) (snd p) acc) [] ?parts \<noteq> []"
    using foldl_obj_set_not_Nil[of "obj_set (fst p) (snd p) []" ps] by (simp add: obj_set_not_Nil)
  then show "parseOrderQueryString (Some (QStr s)) validFields =
           (if list_all (allowedPart validFields) (split s '','')
            then Inr (Some (foldl (\<lambda>acc p. obj_set (fst p) (snd p) acc) [] ?parts))
            else Inl ZodError)"
    using match_iff_split[OF plain ne, of s] s
    by (simp add: parseOrderQueryString_def orderRegexTest_def Let_def obj_keys_def)
next
  show "distinct (map (fst \<circ> orderPart) (split s '','')) \<longrightarrow>
          foldl (\<lambda>acc p. obj_set (fst p) (snd p) acc) [] (map orderPart (split s '',''))
            = map orderPart (split s '','')"
    using foldl_obj_set_distinct[of "map orderPart (split s '','')" "[]"] by simp
qed

text \<open>The amended C8 at \<open>-name,age\<close> and at \<open>email\<close>, for the fields \<open>name\<close> and \<open>age\<close>.\<close>

theorem parseOrderQueryString_parts_witness:
  "list_all plainName [''name'', ''age''] \<and> [''name'', ''age''] \<noteq> [] \<and> ''-name,age'' \<noteq> []
   \<and> list_all (allowedPart [''name'', ''age'']) (split ''-name,age'' '','')
   \<and> distinct (map (fst \<circ> orderPart) (split ''-name,age'' '',''))
   \<and> parseOrderQueryString (Some (QStr ''-name,age'')) [''name'', ''age'']
       = Inr (Some [(''name'', desc), (''age'', asc)])
   \<and> \<not> list_all (allowedPart [''name'', ''age'']) (split ''email'' '','')
   \<and> parseOrderQueryString (Some (QStr ''email'')) [''name'', ''age''] = Inl ZodError"
proof -
  have h1: "list_all plainName [''name'', ''age'']" by code_simp
  have h2: "[''name'', ''age''] \<noteq> []" by simp
  have h3: "''-name,age'' \<noteq> []" by simp
  have h3': "''email'' \<noteq> []" by simp
  have a: "list_all (allowedPart [''name'', ''age'']) (split ''-name,age'' '','')" by code_simp
  have d: "distinct (map (fst \<circ> orderPart) (split ''-name,age'' '',''))" by code_simp
  have m: "map orderPart (split ''-name,age'' '','') = [(''name'', desc), (''age'', asc)]" by code_simp
  have b: "\<not> list_all (allowedPart [''name'', ''age'']) (split ''email'' '','')" by code_simp
  from parseOrderQueryString_parts[OF h1 h2 h3] parseOrderQueryString_parts[OF h1 h2 h3'] h1 a d m b
  show ?thesis by simp
qed

text \<open>
  The empty specification passes the pattern and splits into one empty part, so the
  record is never empty and the branch that returns \<^verbatim>\<open>undefined\<close> is not taken. (\<open>list\<close>
  calls the parser on strings that are not empty only.)
\<close>

lemma parseOrderQueryString_empty:
  "parseOrderQueryString (Some (QStr [])) validFields = Inr (Some [([], asc)])"
  "parseOrderQueryString None validFields = Inr (Some [([], asc)])"
  by (simp_all add: parseOrderQueryString_def orderRegexTest_def split_def orderPart_def
        startsWith_def obj_keys_def)

section \<open>Properties of the resource view\<close>

subsection \<open>Retrieving a row\<close>

text \<open>
  C4, as stated: when the key value matches no row, \<open>retrieve\<close> returns a NotFound
  error. The code has no such error: with no row, \<^verbatim>\<open>results[0]\<close> is \<^verbatim>\<open>undefined\<close>, and
  parsing it with the retrieve schema throws the validation error, the same error that
  a row failing the schema gives. Here the table holds the row with \<open>id\<close> 1 and the
  request asks for \<open>id\<close> 2.
\<close>

theorem retrieve_no_row_counterexample:
  "run_select aliceDb
     (retrieve_plan (usersView aliceDb None \<lparr> query = [], params = [(''id'', ''2'')], body = VUndefined \<rparr>)
        \<lparr> query = [], params = [(''id'', ''2'')], body = VUndefined \<rparr>) = Inr []
   \<and> retrieve (usersView aliceDb None \<lparr> query = [], params = [(''id'', ''2'')], body = VUndefined \<rparr>)
       = Inl ZodError"
  by code_simp

text \<open>
  C4, amended: for a retrieve request that no handler replaces, when the query returns
  no row, \<open>retrieve\<close> fails with the schema validation error; when it returns exactly
  one row, \<open>retrieve\<close> returns that row validated against the retrieve schema (and
  fails with the validation error when the row does not pass).
\<close>

theorem retrieve_rows:
  assumes "handlers_retrieve cfg = None"
    and "event cfg = Some ev"
    and "run_select (db cfg) (retrieve_plan cfg ev) = Inr rs"
  shows "(rs = [] \<longrightarrow> retrieve cfg = Inl ZodError)
       \<and> (\<forall>r. rs = [r] \<longrightarrow>
            retrieve cfg = (case zparse (schema_retrieve cfg) (row_obj r) of
                              None \<Rightarrow> Inl ZodError
                            | Some x \<Rightarrow> Inr (Built x)))"
  using assms
  by (auto simp: retrieve_def getEvent_def ebind_def firstRow_def zod_parse_def row_val_def
           split: option.splits)

text \<open>The amended C4 at the key 1, on the table with alice and on the empty table.\<close>

theorem retrieve_rows_witness:
  "handlers_retrieve (usersView aliceDb None \<lparr> query = [], params = [(''id'', ''1'')], body = VUndefined \<rparr>) = None
   \<and> event (usersView aliceDb None \<lparr> query = [], params = [(''id'', ''1'')], body = VUndefined \<rparr>)
       = Some \<lparr> query = [], params = [(''id'', ''1'')], body = VUndefined \<rparr>
   \<and> run_select (db (usersView aliceDb None \<lparr> query = [], params = [(''id'', ''1'')], body = VUndefined \<rparr>))
        (retrieve_plan (usersView aliceDb None \<lparr> query = [], params = [(''id'', ''1'')], body = VUndefined \<rparr>)
           \<lparr> query = [], params = [(''id'', ''1'')], body = VUndefined \<rparr>) = Inr [aliceRow]
   \<and> retrieve (usersView aliceDb None \<lparr> query = [], params = [(''id'', ''1'')], body = VUndefined \<rparr>)
       = Inr (Built [(''id'', VStr ''1''), (''name'', VStr ''alice'')])
   \<and> run_select (db (usersView emptyDb None \<lparr> query = [], params = [(''id'', ''1'')], body = VUndefined \<rparr>))
        (retrieve_plan (usersView emptyDb None \<lparr> query = [], params = [(''id'', ''1'')], body = VUndefined \<rparr>)
           \<lparr> query = [], params = [(''id'', ''1'')], body = VUndefined \<rparr>) = Inr []
   \<and> retrieve (usersView emptyDb None \<lparr> query = [], params = [(''id'', ''1'')], body = VUndefined \<rparr>)
       = Inl ZodError"
proof -
  let ?ev = "\<lparr> query = [], params = [(''id'', ''1'')], body = VUndefined \<rparr>"
  let ?a = "usersView aliceDb None ?ev" and ?e = "usersView emptyDb None ?ev"
  have a1: "handlers_retrieve ?a = None" and a2: "event ?a = Some ?ev"
    and e1: "handlers_retrieve ?e = None" and e2: "event ?e = Some ?ev"
    by (simp_all add: usersView_def)
  have a3: "run_select (db ?a) (retrieve_plan ?a ?ev) = Inr [aliceRow]" by code_simp
  have e3: "run_select (db ?e) (retrieve_plan ?e ?ev) = Inr []" by code_simp
  have z: "zparse (schema_retrieve ?a) (row_obj aliceRow) = Some [(''id'', VStr ''1''), (''name'', VStr ''alice'')]"
    by code_simp
  from retrieve_rows[OF a1 a2 a3] retrieve_rows[OF e1 e2 e3] a1 a2 a3 e3 z
  show ?thesis by simp
qed

subsection \<open>The page count\<close>

text \<open>
  C5. The claim is that a paginated list has \<open>pageCount = ceil(count / pageSize)\<close> and
  that, when no row matches, it succeeds with \<open>count = 0\<close> and \<open>pageCount = 0\<close>. The
  code reads \<^verbatim>\<open>results[0].count\<close> before it falls back to \<^verbatim>\<open>results.length\<close>: with no
  row, \<^verbatim>\<open>results[0]\<close> is \<^verbatim>\<open>undefined\<close> and the read throws a \<^verbatim>\<open>TypeError\<close>. Here the table is
  empty and pagination is forced.
\<close>

theorem list_no_rows_throws:
  "list (usersView emptyDb (Some (Bool True)) \<lparr> query = [], params = [], body = VUndefined \<rparr>)
     = Inl (TypeError ''Cannot read properties of undefined (reading count)'')"
  by code_simp

text \<open>
  The first part of C5 holds of every page that \<open>list\<close> returns; the failure is that of
  every listing that finds no row.
\<close>

lemma list_pageCount:
  "list cfg = Inr (Built (Page env)) \<Longrightarrow> pageCount env = Math_ceil (js_div (count env) (pageSize env))"
  by (auto simp: list_def runHandler_def ebind_Inr Let_def split: option.splits if_splits)

lemma list_no_rows:
  assumes "handlers_list cfg = None" and "event cfg = Some ev"
    and "orderingOf cfg (query ev) = Inr order"
    and "run_select (db cfg) (list_plan cfg (query ev) order) = Inr []"
  shows "list cfg = Inl (TypeError ''Cannot read properties of undefined (reading count)'')"
  using assms by (simp add: list_def getEvent_def ebind_def Let_def countOf_def)

lemma pageCount_example: "Math_ceil (js_div (Fin 25) (Fin 10)) = Fin 3"
  by code_simp

subsection \<open>When a listing is paginated\<close>

text \<open>
  C6, as stated: when pagination is enabled, the page is 1 if the page parameter is
  unspecified or not positive. The code takes \<^verbatim>\<open>query.page || 1\<close>, which keeps every
  page parameter that is not empty: with pagination forced and \<open>page=-1\<close>, the page
  stays \<open>-1\<close> and the offset is \<open>(-1 - 1) * 24 = -48\<close>.
\<close>

theorem list_plan_negative_page_counterexample:
  "pageOf [(''page'', QStr ''-1'')] = PQuery (QStr ''-1'')
   \<and> limit_offset (list_plan (usersView emptyDb (Some (Bool True))
                      \<lparr> query = [(''page'', QStr ''-1'')], params = [], body = VUndefined \<rparr>)
                    [(''page'', QStr ''-1'')] None)
       = Some (Fin 24, Fin (- 48))"
  by code_simp

text \<open>
  C6, amended: a list request is paginated (the query gets a limit and an offset)
  exactly when \<open>canPaginate\<close> is \<open>true\<close>, or is \<open>auto\<close> and a page parameter was supplied;
  with \<open>false\<close> it never is. The page is 1 when the page parameter is unspecified or
  empty, and the supplied parameter otherwise. When paginated, the limit is the page
  size and the offset is \<open>(page - 1) * pageSize\<close>.
\<close>

theorem list_pagination:
  "(limit_offset (list_plan cfg q order) \<noteq> None
      \<longleftrightarrow> canPaginateOf cfg = Bool True \<or> (canPaginateOf cfg = Auto \<and> map_of q ''page'' \<noteq> None))
   \<and> (canPaginateOf cfg = Bool False \<longrightarrow> limit_offset (list_plan cfg q order) = None)
   \<and> pageOf q = (case map_of q ''page'' of
                   None \<Rightarrow> PNum (Fin 1)
                 | Some v \<Rightarrow> if v = QStr [] then PNum (Fin 1) else PQuery v)
   \<and> (limit_offset (list_plan cfg q order) \<noteq> None \<longrightarrow>
        limit_offset (list_plan cfg q order)
          = Some (pageSizeOf cfg, js_mul (js_sub (pageNumber (pageOf q)) (Fin 1)) (pageSizeOf cfg)))"
  by (auto simp: list_plan_def Let_def paginateOf_def pageOf_def truthy_def
           split: option.splits qvalue.splits)

text \<open>The amended C6 at \<open>canPaginate\<close> \<open>auto\<close> and \<open>page=2\<close>, with the page size 24.\<close>

theorem list_pagination_witness:
  "canPaginateOf (usersView emptyDb None \<lparr> query = [(''page'', QStr ''2'')], params = [], body = VUndefined \<rparr>) = Auto
   \<and> map_of [(''page'', QStr ''2'')] ''page'' \<noteq> None
   \<and> limit_offset (list_plan (usersView emptyDb None \<lparr> query = [(''page'', QStr ''2'')], params = [], body = VUndefined \<rparr>)
                      [(''page'', QStr ''2'')] None) \<noteq> None
   \<and> pageOf [(''page'', QStr ''2'')] = PQuery (QStr ''2'')
   \<and> limit_offset (list_plan (usersView emptyDb None \<lparr> query = [(''page'', QStr ''2'')], params = [], body = VUndefined \<rparr>)
                      [(''page'', QStr ''2'')] None) = Some (Fin 24, Fin 24)"
proof -
  let ?q = "[(''page'', QStr ''2'')]"
  let ?c = "usersView emptyDb None \<lparr> query = ?q, params = [], body = VUndefined \<rparr>"
  note T = list_pagination[of ?c ?q None]
  have a: "canPaginateOf ?c = Auto"
    by (simp add: canPaginateOf_def usersView_def)
  have p: "map_of ?q ''page'' \<noteq> None" by simp
  have n: "js_mul (js_sub (pageNumber (PQuery (QStr ''2''))) (Fin 1)) (Fin 24) = Fin 24"
    by code_simp
  have s: "pageSizeOf ?c = Fin 24" by code_simp
  from T a p have en: "limit_offset (list_plan ?c ?q None) \<noteq> None" by blast
  from T have po: "pageOf ?q = PQuery (QStr ''2'')" by simp
  from T en have "limit_offset (list_plan ?c ?q None)
      = Some (pageSizeOf ?c, js_mul (js_sub (pageNumber (pageOf ?q)) (Fin 1)) (pageSizeOf ?c))"
    by blast
  then have lo: "limit_offset (list_plan ?c ?q None) = Some (Fin 24, Fin 24)"
    by (simp only: po n s)
  from a p en po lo show ?thesis by blast
qed

text \<open>
  What \<open>list\<close> returns follows the same switch: the envelope, with the page and the
  page size, when the request is paginated, and the plain rows when it is not.
\<close>

lemma list_paged_iff:
  assumes "list cfg = Inr (Built l)" and "event cfg = Some ev"
  shows "(case l of
            Page env \<Rightarrow> paginateOf (canPaginateOf cfg) (query ev)
                        \<and> page env = pageOf (query ev) \<and> pageSize env = pageSizeOf cfg
          | Rows rs \<Rightarrow> \<not> paginateOf (canPaginateOf cfg) (query ev))"
  using assms
  by (auto simp: list_def runHandler_def getEvent_def ebind_Inr Let_def
           split: option.splits if_splits listing.splits)

subsection \<open>What an update returns\<close>

text \<open>
  C9. Whenever \<open>update\<close> itself returns a payload, the request body passed the update
  schema, the database was given the validated values, and the payload is the first
  returned row validated against the retrieve schema, not the update schema.
\<close>

theorem update_returns_retrieve_shape:
  assumes "update cfg = Inr (Built r)"
  shows "\<exists>ev vals rs.
           event cfg = Some ev
           \<and> zod_parse (schema_update cfg) (body ev) = Inr vals
           \<and> run_update (db cfg) (update_plan_of cfg ev vals) = Inr rs
           \<and> zod_parse (schema_retrieve cfg) (firstRow rs) = Inr r"
  using assms
  by (auto simp: update_def runHandler_def getEvent_def ebind_Inr split: option.splits)

text \<open>
  C9 at the update of alice to the name \<open>bob\<close>: the update schema keeps the name only,
  the payload has the \<open>id\<close> and the name of the retrieve schema.
\<close>

theorem update_returns_retrieve_shape_witness:
  "update (usersView aliceDb None \<lparr> query = [], params = [(''id'', ''1'')], body = VObj [(''name'', VStr ''bob'')] \<rparr>)
     = Inr (Built [(''id'', VStr ''1''), (''name'', VStr ''bob'')])
   \<and> (\<exists>ev vals rs.
         event (usersView aliceDb None \<lparr> query = [], params = [(''id'', ''1'')], body = VObj [(''name'', VStr ''bob'')] \<rparr>) = Some ev
         \<and> zod_parse nameSchema (body ev) = Inr vals
         \<and> run_update aliceDb (update_plan_of (usersView aliceDb None \<lparr> query = [], params = [(''id'', ''1'')], body = VObj [(''name'', VStr ''bob'')] \<rparr>) ev vals) = Inr rs
         \<and> zod_parse idNameSchema (firstRow rs) = Inr [(''id'', VStr ''1''), (''name'', VStr ''bob'')])"
proof -
  let ?c = "usersView aliceDb None \<lparr> query = [], params = [(''id'', ''1'')], body = VObj [(''name'', VStr ''bob'')] \<rparr>"
  have h: "update ?c = Inr (Built [(''id'', VStr ''1''), (''name'', VStr ''bob'')])" by code_simp
  have s: "schema_update ?c = nameSchema" "schema_retrieve ?c = idNameSchema" "db ?c = aliceDb"
    by (simp_all add: usersView_def)
  from update_returns_retrieve_shape[OF h] h s show ?thesis by simp
qed

end
